theory Spec2Isabelle
  imports Complex_Main
begin

section \<open>Evaluation of a pretrained adaptive VarNet: the embedding\<close>

text \<open>
  The development embeds \<^verbatim>\<open>fastmri_examples/adaptive_varnet/eval_pretrained_adaptive_varnet.py\<close>:
  the function \<^verbatim>\<open>entropy\<close>, the function \<^verbatim>\<open>load_model\<close> and the body of \<^verbatim>\<open>cli_main\<close>
  (the try/except that picks the module class, the loop over the data loader and the
  aggregation after it).

  Numbers. Entries of tensors and arrays that the script receives from its collaborators
  (probability masks, per-image metrics, similarity scores) are real numbers, and the
  script's arithmetic on them is exact: rounding and overflow are not modelled. What the
  script's own arithmetic makes non-finite is modelled: the product \<^verbatim>\<open>x * x.log()\<close> at a
  non-positive \<^verbatim>\<open>x\<close>, and the mean of an empty tensor, are \<^verbatim>\<open>nan\<close>. Two places where the
  precision of the tensors decides what the code does are not left to exact arithmetic:
  the sum that the budget assertion tests is a parameter (\<open>tensor_sum\<close>), and the entropy
  function is given a second time with its arithmetic as a parameter
  (\<open>entropy_elem_fp\<close>), of which exact arithmetic and rounding to binary64 are instances.
\<close>

subsection \<open>Scalars: a finite number or nan\<close>

datatype fl = Num real | NaN

fun fl_add :: "fl \<Rightarrow> fl \<Rightarrow> fl" where
  "fl_add (Num a) (Num b) = Num (a + b)"
| "fl_add _ _ = NaN"

fun fl_sub :: "fl \<Rightarrow> fl \<Rightarrow> fl" where
  "fl_sub (Num a) (Num b) = Num (a - b)"
| "fl_sub _ _ = NaN"

fun fl_neg :: "fl \<Rightarrow> fl" where
  "fl_neg (Num a) = Num (- a)"
| "fl_neg NaN = NaN"

text \<open>\<^verbatim>\<open>t.sum()\<close> of a one-dimensional tensor; the sum of no entries is 0.\<close>

fun fl_sum :: "fl list \<Rightarrow> fl" where
  "fl_sum [] = Num 0"
| "fl_sum (x # xs) = fl_add x (fl_sum xs)"

text \<open>\<^verbatim>\<open>t.mean()\<close>: the sum over the number of entries, nan for a tensor with no entry.\<close>

definition fl_mean :: "fl list \<Rightarrow> fl" where
  "fl_mean xs =
     (if xs = [] then NaN
      else case fl_sum xs of Num s \<Rightarrow> Num (s / real (length xs)) | NaN \<Rightarrow> NaN)"

definition mean :: "real list \<Rightarrow> fl" where
  "mean xs = (if xs = [] then NaN else Num (sum_list xs / real (length xs)))"

subsection \<open>The function entropy\<close>

text \<open>
  \<^verbatim>\<open>
  def entropy(prob_mask: torch.Tensor):
      ent = -(prob_mask * prob_mask.log() + (1 - prob_mask) * (1 - prob_mask).log())
      ent[prob_mask == 0] = 0
      ent[prob_mask == 1] = 0
      return ent
  \<close>
  \<open>xlogx x\<close> is the entry \<^verbatim>\<open>x * x.log()\<close>: torch's log is \<^verbatim>\<open>-inf\<close> at 0 and \<^verbatim>\<open>nan\<close> below 0,
  and \<^verbatim>\<open>0 * -inf\<close> and \<^verbatim>\<open>x * nan\<close> are \<^verbatim>\<open>nan\<close>.
\<close>

definition xlogx :: "real \<Rightarrow> fl" where
  "xlogx x = (if 0 < x then Num (x * ln x) else NaN)"

text \<open>The first line of \<^verbatim>\<open>entropy\<close> at one entry, before the two assignments.\<close>

definition entropy_formula :: "real \<Rightarrow> fl" where
  "entropy_formula p = fl_neg (fl_add (xlogx p) (xlogx (1 - p)))"

text \<open>One entry of the tensor that \<^verbatim>\<open>entropy\<close> returns: the formula, then the two masked assignments in the source's order.\<close>

definition entropy_elem :: "real \<Rightarrow> fl" where
  "entropy_elem p =
     (let ent = entropy_formula p;
          ent = (if p = 0 then Num 0 else ent);
          ent = (if p = 1 then Num 0 else ent)
      in ent)"

definition entropy :: "real list list \<Rightarrow> fl list list" where
  "entropy prob_mask = map (map entropy_elem) prob_mask"

subsection \<open>Exceptions and standard output\<close>

text \<open>
  \<open>RuntimeError\<close> stands for the class the \<^verbatim>\<open>except RuntimeError\<close> clause catches,
  \<open>OtherError\<close> for an exception of a class this script neither raises nor catches
  itself (a collaborator's).
\<close>

datatype assertion =
    MultiplePolicies
  | BudgetMismatch real real

datatype error =
    RuntimeError
  | KeyError
  | IndexError
  | ValueError
  | AttributeError
  | AssertionError assertion
  | OtherError string

datatype out =
    Print string
  | PrintComputed nat nat
  | PrintReport "string \<Rightarrow> fl option"

subsection \<open>Collaborators\<close>

datatype module_class = AdaptiveVarNetModule | VarNetModule

text \<open>The dictionary \<^verbatim>\<open>torch.load\<close> returns; a field is \<open>None\<close> when its key is missing.\<close>

record ('h, 's) checkpoint =
  hyper_parameters :: "'h option"
  state_dict :: "'s option"

text \<open>
  A module: calling it on a batch's three inputs gives the reconstructions (one image for
  each sample) and \<^verbatim>\<open>extra_outputs\<close>; \<open>budget\<close> is the attribute \<^verbatim>\<open>model.budget\<close>, \<open>None\<close>
  when the module has none. A tensor of \<^verbatim>\<open>prob_masks\<close> (b x 1 x 1 x L x 1) is given by its
  slice \<^verbatim>\<open>[:, 0, 0, :, 0]\<close>, a list of b rows of length L.
\<close>

record ('ks, 'img) lightning_module =
  forward :: "'ks \<Rightarrow> 'ks \<Rightarrow> 'ks \<Rightarrow> 'img list \<times> (string \<Rightarrow> real list list list option)"
  budget :: "real option"

record ('ks, 'img) batch =
  kspace :: 'ks
  masked_kspace :: 'ks
  mask_t :: 'ks
  target :: "'img list"
  max_value :: "real list"

text \<open>
  The functions of other modules that the script calls. \<open>ssim_loss X Y r\<close> is the tensor
  \<^verbatim>\<open>ssim_loss(X.unsqueeze(1), Y.unsqueeze(1), data_range=r, reduced=False).mean(dim=(1, 2))\<close>,
  as the list of its entries: the call keeps dimension 0, the batch dimension.
  \<open>psnr\<close> and \<open>nmse\<close> are \<^verbatim>\<open>evaluate.psnr\<close> and \<^verbatim>\<open>evaluate.nmse\<close>. The three metric
  functions and the module's forward pass are taken to return.
  \<open>tensor_sum row\<close> is \<^verbatim>\<open>row.sum()\<close> of a row of a mask tensor, as torch computes it in the
  tensor's own precision: the number that the budget assertion tests, which need not be
  the exact sum of the entries.
\<close>

record ('h, 's, 'ks, 'img) externals =
  torch_load :: "string \<Rightarrow> error + ('h, 's) checkpoint"
  init_module :: "module_class \<Rightarrow> 'h \<Rightarrow> error + ('ks, 'img) lightning_module"
  load_state_dict ::
    "('ks, 'img) lightning_module \<Rightarrow> 's \<Rightarrow> error + ('ks, 'img) lightning_module"
  ssim_loss :: "'img list \<Rightarrow> 'img list \<Rightarrow> real list \<Rightarrow> real list"
  psnr :: "'img \<Rightarrow> 'img \<Rightarrow> real \<Rightarrow> real"
  nmse :: "'img \<Rightarrow> 'img \<Rightarrow> real"
  tensor_sum :: "real list \<Rightarrow> real"

text \<open>The data module as constructed from the arguments, by its two loaders.\<close>

record ('ks, 'img) data_module =
  val_dataloader :: "('ks, 'img) batch list"
  train_dataloader :: "('ks, 'img) batch list"

text \<open>The arguments that \<^verbatim>\<open>cli_main\<close> reads itself (the others go to the collaborators' constructors).\<close>

record args =
  load_checkpoint :: string
  num_batches :: "int option"
  data_mode :: string

subsection \<open>The function load\_model\<close>

text \<open>
  \<^verbatim>\<open>
  print(f"loading model from {fname}")
  checkpoint = torch.load(fname, map_location=torch.device("cpu"))
  module = module_class(**checkpoint["hyper_parameters"])
  module.load_state_dict(checkpoint["state_dict"])
  return module
  \<close>
  The result is what was printed and the module or the exception.
\<close>

definition load_model ::
  "('h, 's, 'ks, 'img) externals \<Rightarrow> module_class \<Rightarrow> string
     \<Rightarrow> out list \<times> (error + ('ks, 'img) lightning_module)" where
  "load_model ext module_class fname =
     ([Print (''loading model from '' @ fname)],
      case torch_load ext fname of
        Inl e \<Rightarrow> Inl e
      | Inr checkpoint \<Rightarrow>
         (case hyper_parameters checkpoint of
            None \<Rightarrow> Inl KeyError
          | Some hp \<Rightarrow>
             (case init_module ext module_class hp of
                Inl e \<Rightarrow> Inl e
              | Inr mdl \<Rightarrow>
                 (case state_dict checkpoint of
                    None \<Rightarrow> Inl KeyError
                  | Some sd \<Rightarrow> load_state_dict ext mdl sd))))"

subsection \<open>The function cli\_main: choosing the module class\<close>

text \<open>
  \<^verbatim>\<open>
  try:
      print("Trying to load as AdaptiveVarNetModule...")
      model = load_model(AdaptiveVarNetModule, args.load_checkpoint)
      print("... Success!")
  except RuntimeError:
      print("Loading as AdaptiveVarNetModule failed, trying to load as VarNetModule...")
      model = load_model(VarNetModule, args.load_checkpoint)
      print("... Success!")
  \<close>
\<close>

definition load_block ::
  "('h, 's, 'ks, 'img) externals \<Rightarrow> string
     \<Rightarrow> out list \<times> (error + ('ks, 'img) lightning_module)" where
  "load_block ext fname =
     (let out0 = [Print ''Trying to load as AdaptiveVarNetModule...''];
          (out1, r1) = load_model ext AdaptiveVarNetModule fname
      in case r1 of
           Inr model \<Rightarrow> (out0 @ out1 @ [Print ''... Success!''], Inr model)
         | Inl e \<Rightarrow>
            if e = RuntimeError then
              (let out2 = [Print ''Loading as AdaptiveVarNetModule failed, trying to load as VarNetModule...''];
                   (out3, r3) = load_model ext VarNetModule fname
               in case r3 of
                    Inr model \<Rightarrow> (out0 @ out1 @ out2 @ out3 @ [Print ''... Success!''], Inr model)
                  | Inl e' \<Rightarrow> (out0 @ out1 @ out2 @ out3, Inl e'))
            else (out0 @ out1, Inl e))"

subsection \<open>The function cli\_main: the loop over the data loader\<close>

record acc =
  all_prob_masks :: "real list list list"
  all_ssims :: "real list list"
  all_psnrs :: "real list"
  all_nmses :: "real list"

definition acc0 :: acc where
  "acc0 = \<lparr>all_prob_masks = [], all_ssims = [], all_psnrs = [], all_nmses = []\<rparr>"

text \<open>\<^verbatim>\<open>np.isclose(a, b)\<close> with numpy's default tolerances: \<^verbatim>\<open>|a - b| <= atol + rtol * |b|\<close>, \<^verbatim>\<open>rtol = 1e-05\<close>, \<^verbatim>\<open>atol = 1e-08\<close>.\<close>

definition isclose :: "real \<Rightarrow> real \<Rightarrow> bool" where
  "isclose a b = (\<bar>a - b\<bar> \<le> 1 / 10 ^ 8 + 1 / 10 ^ 5 * \<bar>b\<bar>)"

text \<open>
  One pass through the loop body, after the test of the batch cap: the call of the model,
  the similarity tensor of the batch, the metrics of each image of
  \<^verbatim>\<open>zip(target, output, batch.max_value.numpy())\<close>, and the probability masks when
  \<^verbatim>\<open>extra_outputs\<close> has the key. The budget assertion reads \<^verbatim>\<open>batch_prob_masks[0].sum()\<close>,
  the sum of the first row as torch computed it.
\<close>

definition loop_body ::
  "('h, 's, 'ks, 'img) externals \<Rightarrow> ('ks, 'img) lightning_module \<Rightarrow> ('ks, 'img) batch
     \<Rightarrow> acc \<Rightarrow> error + acc" where
  "loop_body ext model b a =
     (let (output, extra_outputs) = forward model (kspace b) (masked_kspace b) (mask_t b);
          ssim = map (\<lambda>x. 1 - x) (ssim_loss ext output (target b) (max_value b));
          a = a\<lparr>all_ssims := all_ssims a @ [ssim]\<rparr>;
          images = zip (target b) (zip output (max_value b));
          a = a\<lparr>all_psnrs := all_psnrs a @ map (\<lambda>(gt, rec, maxval). psnr ext gt rec maxval) images,
                all_nmses := all_nmses a @ map (\<lambda>(gt, rec, maxval). nmse ext gt rec) images\<rparr>
      in case extra_outputs ''prob_masks'' of
           None \<Rightarrow> Inr a
         | Some prob_masks_list \<Rightarrow>
            if length prob_masks_list \<noteq> 1 then Inl (AssertionError MultiplePolicies)
            else
              (let batch_prob_masks = prob_masks_list ! 0
               in case batch_prob_masks of
                    [] \<Rightarrow> Inl IndexError
                  | row0 # _ \<Rightarrow>
                     (case budget model of
                        None \<Rightarrow> Inl AttributeError
                      | Some bud \<Rightarrow>
                         if isclose (tensor_sum ext row0) bud
                         then Inr (a\<lparr>all_prob_masks := all_prob_masks a @ [batch_prob_masks]\<rparr>)
                         else Inl (AssertionError (BudgetMismatch bud (tensor_sum ext row0))))))"

text \<open>
  \<^verbatim>\<open>
  for i, batch in enumerate(data_loader):
      if i == args.num_batches:
          break
      ...
  \<close>
  An exception of the body ends the loop and the run.
\<close>

fun eval_loop ::
  "('h, 's, 'ks, 'img) externals \<Rightarrow> ('ks, 'img) lightning_module \<Rightarrow> int option \<Rightarrow> int
     \<Rightarrow> ('ks, 'img) batch list \<Rightarrow> acc \<Rightarrow> error + acc" where
  "eval_loop ext model nb i [] a = Inr a"
| "eval_loop ext model nb i (b # rest) a =
     (if Some i = nb then Inr a
      else case loop_body ext model b a of
             Inl e \<Rightarrow> Inl e
           | Inr a' \<Rightarrow> eval_loop ext model nb (i + 1) rest a')"

subsection \<open>The function cli\_main: aggregation\<close>

text \<open>
  \<^verbatim>\<open>np.concatenate(np.array(xs)[:, None], axis=0)\<close>: the array of shape (n, 1) is read as a
  sequence of n arrays of shape (1,); numpy raises ValueError when there is none.
\<close>

definition np_concatenate :: "real list \<Rightarrow> error + real list" where
  "np_concatenate xs = (if xs = [] then Inl ValueError else Inr xs)"

text \<open>\<^verbatim>\<open>torch.cat(ts, dim=0)\<close> of tensors given by their entries; torch raises RuntimeError on an empty list.\<close>

definition torch_cat_flat :: "real list list \<Rightarrow> error + real list" where
  "torch_cat_flat ts = (if ts = [] then Inl RuntimeError else Inr (concat ts))"

text \<open>The size of dimension 1 of a two-dimensional tensor with at least one row.\<close>

definition ncols :: "real list list \<Rightarrow> nat" where
  "ncols t = (case t of [] \<Rightarrow> 0 | r # _ \<Rightarrow> length r)"

text \<open>\<^verbatim>\<open>torch.cat(ts, dim=0)\<close> of two-dimensional tensors: the sizes of dimension 1 must agree.\<close>

definition torch_cat :: "real list list list \<Rightarrow> error + real list list" where
  "torch_cat ts =
     (if ts = [] then Inl RuntimeError
      else if \<exists>t \<in> set ts. ncols t \<noteq> ncols (hd ts) then Inl RuntimeError
      else Inr (concat ts))"

text \<open>\<^verbatim>\<open>t.mean(dim=0, keepdim=True)\<close> of a tensor of N rows, N at least 1: one row, the means of the columns.\<close>

definition mean_dim0 :: "real list list \<Rightarrow> real list list" where
  "mean_dim0 t =
     [map (\<lambda>l. sum_list (map (\<lambda>row. row ! l) t) / real (length t)) [0 ..< ncols t]]"

text \<open>\<^verbatim>\<open>t.sum(dim=1)\<close>: the sum of each row.\<close>

definition sum_dim1 :: "fl list list \<Rightarrow> fl list" where
  "sum_dim1 t = map fl_sum t"

text \<open>
  The statistics of the stacked probability masks:
  \<^verbatim>\<open>
  marg_prob = prob_mask_tensor.mean(dim=0, keepdim=True)
  marg_entropy = entropy(marg_prob).sum(dim=1)
  avg_cond_entropy = entropy(prob_mask_tensor).sum(dim=1).mean()
  mut_inf = marg_entropy - avg_cond_entropy
  \<close>
  with the three calls of \<^verbatim>\<open>.item()\<close>, which raises unless the tensor has one entry. The
  result is \<^verbatim>\<open>avg_cond_entropy\<close>, \<^verbatim>\<open>marg_entropy\<close> and \<^verbatim>\<open>mut_inf\<close> as scalars.
\<close>

definition mask_statistics :: "real list list \<Rightarrow> error + (fl \<times> fl \<times> fl)" where
  "mask_statistics prob_mask_tensor =
     (let marg_prob = mean_dim0 prob_mask_tensor;
          marg_entropy = sum_dim1 (entropy marg_prob);
          avg_cond_entropy = fl_mean (sum_dim1 (entropy prob_mask_tensor));
          mut_inf = map (\<lambda>m. fl_sub m avg_cond_entropy) marg_entropy
      in case (marg_entropy, mut_inf) of
           ([me], [mi]) \<Rightarrow> Inr (avg_cond_entropy, me, mi)
         | _ \<Rightarrow> Inl RuntimeError)"

text \<open>
  The statements after the loop, up to the update of \<^verbatim>\<open>return_dict\<close>. The result is what
  was printed before \<^verbatim>\<open>print(return_dict)\<close>, and \<^verbatim>\<open>return_dict\<close> or the exception.
\<close>

definition finalize :: "acc \<Rightarrow> out list \<times> (error + (string \<Rightarrow> fl option))" where
  "finalize a =
     (case np_concatenate (all_psnrs a) of
        Inl e \<Rightarrow> ([], Inl e)
      | Inr psnr_array \<Rightarrow>
     (case np_concatenate (all_nmses a) of
        Inl e \<Rightarrow> ([], Inl e)
      | Inr nmse_array \<Rightarrow>
     (case torch_cat_flat (all_ssims a) of
        Inl e \<Rightarrow> ([], Inl e)
      | Inr ssim_tensor \<Rightarrow>
     (let return_dict =
            [''ssim'' \<mapsto> mean ssim_tensor,
             ''psnr'' \<mapsto> mean psnr_array,
             ''nmse'' \<mapsto> mean nmse_array]
      in if all_prob_masks a = [] then ([], Inr return_dict)
         else
           (case torch_cat (all_prob_masks a) of
              Inl e \<Rightarrow> ([], Inl e)
            | Inr prob_mask_tensor \<Rightarrow>
               (let out2 = [PrintComputed (length prob_mask_tensor) (ncols prob_mask_tensor)]
                in case mask_statistics prob_mask_tensor of
                     Inl e \<Rightarrow> (out2, Inl e)
                   | Inr (avg_cond_entropy, marg_entropy, mut_inf) \<Rightarrow>
                       (out2,
                        Inr (return_dict(''cond_ent_ind'' \<mapsto> avg_cond_entropy,
                                         ''marg_ent_ind'' \<mapsto> marg_entropy,
                                         ''mi_ind'' \<mapsto> mut_inf)))))))))"

text \<open>The loop and the aggregation, for a loaded model and a data loader.\<close>

definition evaluation ::
  "('h, 's, 'ks, 'img) externals \<Rightarrow> ('ks, 'img) lightning_module \<Rightarrow> int option
     \<Rightarrow> ('ks, 'img) batch list \<Rightarrow> out list \<times> (error + (string \<Rightarrow> fl option))" where
  "evaluation ext model nb batches =
     (case eval_loop ext model nb 0 batches acc0 of
        Inl e \<Rightarrow> ([], Inl e)
      | Inr a \<Rightarrow> finalize a)"

text \<open>
  \<^verbatim>\<open>
  data_loader = (
      data_module.val_dataloader()
      if args.data_mode == "val"
      else data_module.train_dataloader()
  )
  \<close>
\<close>

definition data_loader :: "('ks, 'img) data_module \<Rightarrow> args \<Rightarrow> ('ks, 'img) batch list" where
  "data_loader dm ar =
     (if data_mode ar = ''val'' then val_dataloader dm else train_dataloader dm)"

text \<open>
  \<^verbatim>\<open>cli_main\<close>: what the run prints, and the exception that ends it (\<open>None\<close> when it
  returns). The last statement is \<^verbatim>\<open>print(return_dict)\<close>.
\<close>

definition cli_main ::
  "('h, 's, 'ks, 'img) externals \<Rightarrow> ('ks, 'img) data_module \<Rightarrow> args
     \<Rightarrow> out list \<times> error option" where
  "cli_main ext dm ar =
     (case load_block ext (load_checkpoint ar) of
        (out1, Inl e) \<Rightarrow> (out1, Some e)
      | (out1, Inr model) \<Rightarrow>
         (case evaluation ext model (num_batches ar) (data_loader dm ar) of
            (out2, Inl e) \<Rightarrow> (out1 @ out2, Some e)
          | (out2, Inr return_dict) \<Rightarrow> (out1 @ out2 @ [PrintReport return_dict], None)))"

section \<open>Notions used to state the properties\<close>

text \<open>
  The batches on which the loop runs its body: all of them when the cap is \<^verbatim>\<open>None\<close> (the
  default) or negative, since the index never equals it, and the first \<open>n\<close> for a cap
  \<open>n\<close> from 0 on.
\<close>

definition processed :: "int option \<Rightarrow> 'a list \<Rightarrow> 'a list" where
  "processed nb batches =
     (case nb of
        None \<Rightarrow> batches
      | Some n \<Rightarrow> if n < 0 then batches else take (nat n) batches)"

text \<open>What the model returns for a batch: the reconstructed images and the auxiliary outputs.\<close>

definition batch_output :: "('ks, 'img) lightning_module \<Rightarrow> ('ks, 'img) batch \<Rightarrow> 'img list" where
  "batch_output model b = fst (forward model (kspace b) (masked_kspace b) (mask_t b))"

definition batch_extra ::
  "('ks, 'img) lightning_module \<Rightarrow> ('ks, 'img) batch \<Rightarrow> string \<Rightarrow> real list list list option" where
  "batch_extra model b = snd (forward model (kspace b) (masked_kspace b) (mask_t b))"

text \<open>The images of a batch: ground truth, reconstruction and max-value of each sample.\<close>

definition batch_images ::
  "('ks, 'img) lightning_module \<Rightarrow> ('ks, 'img) batch \<Rightarrow> ('img \<times> 'img \<times> real) list" where
  "batch_images model b = zip (target b) (zip (batch_output model b) (max_value b))"

text \<open>The similarity tensor of a batch.\<close>

definition batch_ssim ::
  "('h, 's, 'ks, 'img) externals \<Rightarrow> ('ks, 'img) lightning_module \<Rightarrow> ('ks, 'img) batch \<Rightarrow> real list" where
  "batch_ssim ext model b =
     map (\<lambda>x. 1 - x) (ssim_loss ext (batch_output model b) (target b) (max_value b))"

text \<open>The mask tensor that a batch contributes to \<^verbatim>\<open>all_prob_masks\<close>, if it has the key.\<close>

definition batch_masks ::
  "('ks, 'img) lightning_module \<Rightarrow> ('ks, 'img) batch \<Rightarrow> real list list list" where
  "batch_masks model b =
     (case batch_extra model b ''prob_masks'' of None \<Rightarrow> [] | Some ms \<Rightarrow> [ms ! 0])"

text \<open>The loop body on each batch of a list in turn, up to the first exception.\<close>

fun bodies ::
  "('h, 's, 'ks, 'img) externals \<Rightarrow> ('ks, 'img) lightning_module
     \<Rightarrow> ('ks, 'img) batch list \<Rightarrow> acc \<Rightarrow> error + acc" where
  "bodies ext model [] a = Inr a"
| "bodies ext model (b # rest) a =
     (case loop_body ext model b a of
        Inl e \<Rightarrow> Inl e
      | Inr a' \<Rightarrow> bodies ext model rest a')"

text \<open>The value of a key in the report that a run printed last; \<open>None\<close> when the key is absent or no report was printed.\<close>

definition reported :: "out list \<Rightarrow> string \<Rightarrow> fl option" where
  "reported outs key =
     (case rev outs of
        PrintReport return_dict # _ \<Rightarrow> return_dict key
      | _ \<Rightarrow> None)"

text \<open>
  The statistics in the words of the specification, for a stack \<open>rows\<close> of N masks of
  length L: the marginal probability of line \<open>l\<close> is the mean over the masks of entry
  \<open>l\<close>; the marginal entropy is the sum over the lines of the entropy of the marginal
  probability; the conditional entropy is the mean over the masks of the sum over the
  lines of the entropy of the entry.
\<close>

definition marginal_probability :: "real list list \<Rightarrow> nat \<Rightarrow> real" where
  "marginal_probability rows l = sum_list (map (\<lambda>row. row ! l) rows) / real (length rows)"

definition marg_ent :: "real list list \<Rightarrow> fl" where
  "marg_ent rows =
     fl_sum (map (\<lambda>l. entropy_elem (marginal_probability rows l)) [0 ..< ncols rows])"

definition cond_ent :: "real list list \<Rightarrow> fl" where
  "cond_ent rows = fl_mean (map (\<lambda>row. fl_sum (map entropy_elem row)) rows)"

text \<open>
  The binary entropy \<open>H(p)\<close> of the specification, as a real number, for a probability
  \<open>p\<close> from 0 to 1, with the convention \<open>H(0) = H(1) = 0\<close>.
\<close>

definition binary_entropy :: "real \<Rightarrow> real" where
  "binary_entropy p =
     (if p = 0 \<or> p = 1 then 0 else - (p * ln p + (1 - p) * ln (1 - p)))"

text \<open>
  The check that the loop makes of a collected mask tensor: the tensor has a first row, the
  model has a budget, and the sum of that row is close to it.
\<close>

definition first_row_close ::
  "('h, 's, 'ks, 'img) externals \<Rightarrow> ('ks, 'img) lightning_module \<Rightarrow> real list list \<Rightarrow> bool" where
  "first_row_close ext model t =
     (case t of
        [] \<Rightarrow> False
      | row0 # _ \<Rightarrow>
         (case budget model of
            None \<Rightarrow> False
          | Some bud \<Rightarrow> isclose (tensor_sum ext row0) bud))"

text \<open>
  An attempt to load fails with a weight mismatch when the checkpoint was read, the module
  was constructed, and \<^verbatim>\<open>load_state_dict\<close> raised its RuntimeError.
\<close>

definition weight_mismatch ::
  "('h, 's, 'ks, 'img) externals \<Rightarrow> module_class \<Rightarrow> string \<Rightarrow> bool" where
  "weight_mismatch ext module_class fname =
     (case torch_load ext fname of
        Inl e \<Rightarrow> False
      | Inr checkpoint \<Rightarrow>
         (case hyper_parameters checkpoint of
            None \<Rightarrow> False
          | Some hp \<Rightarrow>
             (case init_module ext module_class hp of
                Inl e \<Rightarrow> False
              | Inr mdl \<Rightarrow>
                 (case state_dict checkpoint of
                    None \<Rightarrow> False
                  | Some sd \<Rightarrow>
                     (case load_state_dict ext mdl sd of
                        Inl e \<Rightarrow> e = RuntimeError
                      | Inr _ \<Rightarrow> False)))))"

text \<open>
  The number of calls of \<^verbatim>\<open>load_model\<close> on a file, counted by the line that each call prints.
\<close>

definition attempts :: "out list \<Rightarrow> string \<Rightarrow> nat" where
  "attempts outs fname =
     length (filter (\<lambda>line. case line of
                              Print s \<Rightarrow> s = ''loading model from '' @ fname
                            | _ \<Rightarrow> False) outs)"

section \<open>The entropy function in floating point\<close>

text \<open>
  The operations that \<^verbatim>\<open>entropy\<close> applies to an entry, in the precision of the tensor:
  subtraction, multiplication, addition and the logarithm (of a positive number). Numbers
  of the precision are real numbers; negation is exact in every precision.
\<close>

record arith =
  fp_sub :: "real \<Rightarrow> real \<Rightarrow> real"
  fp_mul :: "real \<Rightarrow> real \<Rightarrow> real"
  fp_add :: "real \<Rightarrow> real \<Rightarrow> real"
  fp_log :: "real \<Rightarrow> real"

text \<open>
  The function \<^verbatim>\<open>entropy\<close> at one entry, line by line as \<open>entropy_elem\<close> is, with each
  operation taken from the arithmetic.
\<close>

definition xlogx_fp :: "arith \<Rightarrow> real \<Rightarrow> fl" where
  "xlogx_fp A x = (if 0 < x then Num (fp_mul A x (fp_log A x)) else NaN)"

fun fl_add_fp :: "arith \<Rightarrow> fl \<Rightarrow> fl \<Rightarrow> fl" where
  "fl_add_fp A (Num a) (Num b) = Num (fp_add A a b)"
| "fl_add_fp A _ _ = NaN"

definition entropy_formula_fp :: "arith \<Rightarrow> real \<Rightarrow> fl" where
  "entropy_formula_fp A p = fl_neg (fl_add_fp A (xlogx_fp A p) (xlogx_fp A (fp_sub A 1 p)))"

definition entropy_elem_fp :: "arith \<Rightarrow> real \<Rightarrow> fl" where
  "entropy_elem_fp A p =
     (let ent = entropy_formula_fp A p;
          ent = (if p = 0 then Num 0 else ent);
          ent = (if p = 1 then Num 0 else ent)
      in ent)"

text \<open>
  Exact arithmetic, of which \<open>entropy_elem\<close> is the instance.
\<close>

definition exact_arith :: arith where
  "exact_arith = \<lparr>fp_sub = (-), fp_mul = (*), fp_add = (+), fp_log = ln\<rparr>"

text \<open>
  IEEE 754 binary64, the precision of \<^verbatim>\<open>prob_mask_tensor\<close> after \<^verbatim>\<open>.double()\<close>: a result is
  the exact result rounded to the nearest number with 53 significant bits, ties to the
  even one. \<open>rnd64\<close> is this rounding for numbers of the normal range; overflow and
  subnormal numbers are not modelled. The logarithm is taken to be correctly rounded.
\<close>

definition round_even :: "real \<Rightarrow> int" where
  "round_even y =
     (let f = \<lfloor>y\<rfloor>; r = y - of_int f
      in if r < 1 / 2 then f else if 1 / 2 < r then f + 1 else if even f then f else f + 1)"

definition rnd64 :: "real \<Rightarrow> real" where
  "rnd64 x =
     (if x = 0 then 0
      else (let ulp = 2 powr (of_int \<lfloor>log 2 \<bar>x\<bar>\<rfloor> - 52)
            in of_int (round_even (x / ulp)) * ulp))"

definition binary64 :: arith where
  "binary64 =
     \<lparr>fp_sub = (\<lambda>a b. rnd64 (a - b)), fp_mul = (\<lambda>a b. rnd64 (a * b)),
      fp_add = (\<lambda>a b. rnd64 (a + b)), fp_log = (\<lambda>x. rnd64 (ln x))\<rparr>"

section \<open>Example runs\<close>

text \<open>
  A policy-free module that returns the batch's k-space as its reconstruction, and
  collaborators for it: every checkpoint loads, the similarity loss and the normalised
  error of an image are the distance to the ground truth, the signal-to-noise ratio
  is the max-value less that distance, and the sum of a row is exact (as it is in any
  binary precision for the rows of the examples, whose entries are 0, 1 and 1/2). Images
  are numbers.
\<close>

definition ex_module :: "(real list, real) lightning_module" where
  "ex_module = \<lparr>forward = (\<lambda>ks mks m. (ks, Map.empty)), budget = None\<rparr>"

definition ex_ext ::
  "(real list, real) lightning_module \<Rightarrow> (unit, unit, real list, real) externals" where
  "ex_ext mdl =
     \<lparr>torch_load = (\<lambda>fname. Inr \<lparr>hyper_parameters = Some (), state_dict = Some ()\<rparr>),
      init_module = (\<lambda>c hp. Inr mdl),
      load_state_dict = (\<lambda>m sd. Inr m),
      ssim_loss = (\<lambda>X Y r. map2 (\<lambda>x y. \<bar>x - y\<bar>) X Y),
      psnr = (\<lambda>gt rec maxval. maxval - \<bar>gt - rec\<bar>),
      nmse = (\<lambda>gt rec. \<bar>gt - rec\<bar>),
      tensor_sum = sum_list\<rparr>"

text \<open>Two batches, of 2 and of 3 images.\<close>

definition ex_batch1 :: "(real list, real) batch" where
  "ex_batch1 =
     \<lparr>kspace = [1, 1], masked_kspace = [], mask_t = [], target = [1, 1], max_value = [1, 1]\<rparr>"

definition ex_batch2 :: "(real list, real) batch" where
  "ex_batch2 =
     \<lparr>kspace = [0, 0, 0], masked_kspace = [], mask_t = [],
      target = [1, 1, 1], max_value = [1, 1, 1]\<rparr>"

definition ex_dm :: "(real list, real) data_module" where
  "ex_dm = \<lparr>val_dataloader = [ex_batch1, ex_batch2], train_dataloader = []\<rparr>"

definition ex_args :: args where
  "ex_args = \<lparr>load_checkpoint = ''ckpt'', num_batches = None, data_mode = ''val''\<rparr>"

text \<open>
  Modules with a sampling policy and budget 2: the auxiliary outputs have the key
  \<^verbatim>\<open>prob_masks\<close>, with the tensors that \<open>f\<close> makes of the batch's masked k-space and mask.
  \<open>pol_module\<close> gives one tensor of one row, \<open>pol2_module\<close> one tensor of two rows,
  \<open>two_pol_module\<close> two tensors.
\<close>

definition mask_module ::
  "(real list \<Rightarrow> real list \<Rightarrow> real list list list) \<Rightarrow> (real list, real) lightning_module" where
  "mask_module f =
     \<lparr>forward = (\<lambda>ks mks m. (ks, [''prob_masks'' \<mapsto> f mks m])), budget = Some 2\<rparr>"

definition pol_module :: "(real list, real) lightning_module" where
  "pol_module = mask_module (\<lambda>mks m. [[m]])"

definition pol2_module :: "(real list, real) lightning_module" where
  "pol2_module = mask_module (\<lambda>mks m. [[mks, m]])"

definition two_pol_module :: "(real list, real) lightning_module" where
  "two_pol_module = mask_module (\<lambda>mks m. [[mks], [m]])"

text \<open>
  Batches of one image for these modules, and data modules of such batches.
\<close>

definition mask_batch :: "real list \<Rightarrow> real list \<Rightarrow> (real list, real) batch" where
  "mask_batch mks m =
     \<lparr>kspace = [1], masked_kspace = mks, mask_t = m, target = [1], max_value = [1]\<rparr>"

definition pol_dm :: "(real list, real) data_module" where
  "pol_dm =
     \<lparr>val_dataloader =
        [mask_batch [] [1, 1, 0, 0], mask_batch [] [1, 0, 1, 0], mask_batch [] [0, 1, 1, 0]],
      train_dataloader = []\<rparr>"

definition pol2_dm :: "(real list, real) data_module" where
  "pol2_dm = \<lparr>val_dataloader = [mask_batch [1, 1, 0, 0] [1, 1, 1, 1]], train_dataloader = []\<rparr>"

text \<open>
  A batch of two images for \<open>pol2_module\<close>: its mask tensor has one row for each image,
  \<open>[1, 1, 0, 0]\<close> and \<open>[1, 1, 1, 1]\<close>.
\<close>

definition pair_batch :: "(real list, real) batch" where
  "pair_batch =
     \<lparr>kspace = [1, 1], masked_kspace = [1, 1, 0, 0], mask_t = [1, 1, 1, 1],
      target = [1, 1], max_value = [1, 1]\<rparr>"

definition pair_dm :: "(real list, real) data_module" where
  "pair_dm = \<lparr>val_dataloader = [pair_batch], train_dataloader = []\<rparr>"

text \<open>
  Two batches of one image whose masks have different entropies: the first mask has two
  entries of one half.
\<close>

definition half_dm :: "(real list, real) data_module" where
  "half_dm =
     \<lparr>val_dataloader = [mask_batch [] [1 / 2, 1 / 2, 1, 0], mask_batch [] [1, 1, 0, 0]],
      train_dataloader = []\<rparr>"

text \<open>
  The three masks of length 4 of the end-to-end scenario, stacked.
\<close>

definition rows3 :: "real list list" where
  "rows3 = [[1, 1, 0, 0], [1, 0, 1, 0], [0, 1, 1, 0]]"

text \<open>
  Collaborators for the loading: with \<open>corrupt_ext\<close> reading the checkpoint raises a
  RuntimeError; with \<open>mismatch_ext\<close> the stored weights are those of a policy-free module,
  so that loading them into a module with a budget raises.
\<close>

definition corrupt_ext :: "(unit, unit, real list, real) externals" where
  "corrupt_ext = (ex_ext ex_module)\<lparr>torch_load := (\<lambda>fname. Inl RuntimeError)\<rparr>"

definition mismatch_ext :: "(unit, unit, real list, real) externals" where
  "mismatch_ext =
     (ex_ext ex_module)
       \<lparr>init_module := (\<lambda>c hp. Inr (if c = AdaptiveVarNetModule then pol_module else ex_module)),
        load_state_dict := (\<lambda>m sd. if budget m = None then Inr m else Inl RuntimeError)\<rparr>"

section \<open>The entropy function\<close>

text \<open>The value of one entry, by the position of the probability.\<close>

lemma entropy_elem_cases:
  "entropy_elem p =
     (if p = 0 \<or> p = 1 then Num 0
      else if 0 < p \<and> p < 1 then Num (- (p * ln p + (1 - p) * ln (1 - p)))
      else NaN)"
  by (simp add: entropy_elem_def entropy_formula_def xlogx_def)

text \<open>Without the two assignments the entries at 0 and at 1 would be nan.\<close>

lemma entropy_formula_edge: "entropy_formula 0 = NaN \<and> entropy_formula 1 = NaN"
  by (simp add: entropy_formula_def xlogx_def)

text \<open>
  Claim C4. The entropy function computes \<open>H(p) = -(p ln p + (1 - p) ln (1 - p))\<close> at each
  entry, and the entry is exactly 0 wherever the probability is 0 or 1: the override is
  part of the tensor that \<^verbatim>\<open>entropy\<close> returns, so it precedes every sum taken of that tensor.
  (Outside the interval from 0 to 1 the entry is nan.)
\<close>

theorem entropy_override:
  assumes "i < length t" and "j < length (t ! i)"
  shows "entropy t ! i ! j =
           (if t ! i ! j = 0 \<or> t ! i ! j = 1 then Num 0
            else if 0 < t ! i ! j \<and> t ! i ! j < 1
              then Num (- (t ! i ! j * ln (t ! i ! j) + (1 - t ! i ! j) * ln (1 - t ! i ! j)))
            else NaN)"
  using assms by (simp add: entropy_def entropy_elem_cases)

theorem entropy_override_witness:
  "entropy [[0, 1 / 2, 1]] ! 0 ! 0 = Num 0 \<and> entropy [[0, 1 / 2, 1]] ! 0 ! 2 = Num 0
   \<and> entropy [[0, 1 / 2, 1]] ! 0 ! 1 = Num (ln 2)"
  using entropy_override [of 0 "[[0, 1 / 2, 1]]" 0]
        entropy_override [of 0 "[[0, 1 / 2, 1]]" 2]
        entropy_override [of 0 "[[0, 1 / 2, 1]]" 1]
  by (simp add: ln_div)

text \<open>The binary entropy is at most \<open>ln 2\<close>, from \<open>ln x \<le> x - 1\<close> at \<open>1 / (2p)\<close> and at \<open>1 / (2(1 - p))\<close>.\<close>

lemma binary_entropy_le_ln2:
  assumes "0 < p" and "p < 1"
  shows "- (p * ln p + (1 - p) * ln (1 - p)) \<le> ln (2::real)"
proof -
  have a: "ln (1 / (2 * p)) \<le> 1 / (2 * p) - 1"
    using assms by (intro ln_le_minus_one) simp
  have b: "ln (1 / (2 * (1 - p))) \<le> 1 / (2 * (1 - p)) - 1"
    using assms by (intro ln_le_minus_one) simp
  have a': "p * ln (1 / (2 * p)) \<le> p * (1 / (2 * p) - 1)"
    using a assms by (intro mult_left_mono) simp_all
  have b': "(1 - p) * ln (1 / (2 * (1 - p))) \<le> (1 - p) * (1 / (2 * (1 - p)) - 1)"
    using b assms by (intro mult_left_mono) simp_all
  have ea: "ln (1 / (2 * p)) = - ln 2 - ln p"
    using assms by (simp add: ln_div ln_mult)
  have "ln (2 * (1 - p)) = ln 2 + ln (1 - p)"
    using assms by (intro ln_mult_pos) simp_all
  then have eb: "ln (1 / (2 * (1 - p))) = - ln 2 - ln (1 - p)"
    using ln_inverse [of "2 * (1 - p)"] by (simp add: inverse_eq_divide)
  have ra: "p * (1 / (2 * p) - 1) = 1 / 2 - p"
    using assms by (simp add: field_simps)
  have rb: "(1 - p) * (1 / (2 * (1 - p)) - 1) = p - 1 / 2"
    using assms by (simp add: field_simps)
  from a' b' have "p * (- ln 2 - ln p) + (1 - p) * (- ln 2 - ln (1 - p)) \<le> 0"
    unfolding ea eb ra rb by linarith
  then show ?thesis by (simp add: algebra_simps)
qed

text \<open>
  The entropy function with the arithmetic as a parameter: exact arithmetic gives \<open>entropy_elem\<close>.
\<close>

lemma entropy_elem_fp_exact: "entropy_elem_fp exact_arith p = entropy_elem p"
  by (simp add: entropy_elem_fp_def entropy_elem_def entropy_formula_fp_def entropy_formula_def
      xlogx_fp_def xlogx_def exact_arith_def)

lemma entropy_elem_fp_inside:
  assumes "0 < p" and "p < 1" and "fp_sub A 1 p = 1 - p"
  shows "entropy_elem_fp A p =
           Num (- fp_add A (fp_mul A p (fp_log A p)) (fp_mul A (1 - p) (fp_log A (1 - p))))"
  using assms by (simp add: entropy_elem_fp_def entropy_formula_fp_def xlogx_fp_def)

text \<open>
  Rounding to binary64: numbers with 53 significant bits are kept, a number other than 0 is never rounded to 0, and \<open>1 - 2^-60\<close> is rounded to 1.
\<close>

lemma round_even_of_int: "round_even (of_int n) = n"
  by (simp add: round_even_def)

lemma round_even_range: "round_even y = \<lfloor>y\<rfloor> \<or> round_even y = \<lfloor>y\<rfloor> + 1"
  by (simp add: round_even_def Let_def)

lemma round_even_nonzero:
  assumes "1 \<le> \<bar>y\<bar>"
  shows "round_even y \<noteq> 0"
proof (cases "1 \<le> y")
  case True
  then have "1 \<le> \<lfloor>y\<rfloor>" by linarith
  with round_even_range [of y] show ?thesis by linarith
next
  case False
  with assms have y: "y \<le> - 1" by linarith
  then have f: "\<lfloor>y\<rfloor> \<le> - 1" by linarith
  show ?thesis
  proof (cases "\<lfloor>y\<rfloor> = - 1")
    case True
    then have "- 1 \<le> y" by linarith
    with y have "y = of_int (- 1)" by simp
    then have "round_even y = - 1" by (simp only: round_even_of_int)
    then show ?thesis by simp
  next
    case False
    with f have "\<lfloor>y\<rfloor> + 1 < 0" by linarith
    with round_even_range [of y] show ?thesis by linarith
  qed
qed

lemma rnd64_binade:
  assumes "2 powr of_int e \<le> \<bar>x\<bar>" and "\<bar>x\<bar> < 2 powr (of_int e + 1)"
  shows "rnd64 x = of_int (round_even (x / 2 powr (of_int e - 52))) * 2 powr (of_int e - 52)"
proof -
  have pos: "0 < \<bar>x\<bar>"
    using assms(1) powr_gt_zero [of 2 "of_int e"] by linarith
  have "of_int e \<le> log 2 \<bar>x\<bar>"
    using assms(1) pos by (simp add: le_log_iff)
  moreover have "log 2 \<bar>x\<bar> < of_int e + 1"
    using assms(2) pos by (simp add: log_less_iff)
  ultimately have "\<lfloor>log 2 \<bar>x\<bar>\<rfloor> = e"
    by (intro floor_unique) simp_all
  with pos show ?thesis
    by (simp add: rnd64_def Let_def)
qed

lemma rnd64_exact:
  assumes "2 powr of_int e \<le> \<bar>x\<bar>" and "\<bar>x\<bar> < 2 powr (of_int e + 1)"
      and "x = of_int n * 2 powr (of_int e - 52)"
  shows "rnd64 x = x"
proof -
  have "x / 2 powr (of_int e - 52) = of_int n"
    using assms(3) by simp
  then show ?thesis
    unfolding rnd64_binade [OF assms(1,2)] using assms(3) by (simp add: round_even_of_int)
qed

lemma rnd64_nonzero:
  assumes "x \<noteq> 0"
  shows "rnd64 x \<noteq> 0"
proof -
  define e where "e = \<lfloor>log 2 \<bar>x\<bar>\<rfloor>"
  define ulp :: real where "ulp = 2 powr (of_int e - 52)"
  have ulp: "0 < ulp" by (simp add: ulp_def)
  from assms have pos: "0 < \<bar>x\<bar>" by simp
  have "of_int e \<le> log 2 \<bar>x\<bar>" by (simp add: e_def)
  then have "2 powr of_int e \<le> \<bar>x\<bar>"
    using pos by (simp add: le_log_iff)
  then have a: "2 powr of_int e / ulp \<le> \<bar>x\<bar> / ulp"
    using ulp by (simp add: divide_right_mono)
  have b: "2 powr of_int e / ulp = 2 powr 52"
    by (simp add: ulp_def powr_diff [symmetric])
  have c: "(1::real) \<le> 2 powr 52" by simp
  from a b c have d: "1 \<le> \<bar>x\<bar> / ulp" by linarith
  from ulp have "\<bar>ulp\<bar> = ulp" by simp
  then have "\<bar>x / ulp\<bar> = \<bar>x\<bar> / ulp"
    by (simp only: abs_divide)
  with d have "1 \<le> \<bar>x / ulp\<bar>"
    by (simp only:)
  then have "round_even (x / ulp) \<noteq> 0" by (rule round_even_nonzero)
  with ulp assms show ?thesis
    by (simp add: rnd64_def Let_def e_def ulp_def)
qed

lemma rnd64_quarters: "rnd64 (1 / 4) = 1 / 4" "rnd64 (3 / 4) = 3 / 4"
proof -
  show "rnd64 (1 / 4) = 1 / 4"
    by (rule rnd64_exact [where e = "- 2" and n = "2 ^ 52"]) (simp_all add: powr_minus_divide)
  show "rnd64 (3 / 4) = 3 / 4"
    by (rule rnd64_exact [where e = "- 1" and n = "3 * 2 ^ 51"]) (simp_all add: powr_minus_divide)
qed

lemma rnd64_near_one: "rnd64 (1 - 1 / 2 ^ 60) = 1"
proof -
  have b: "2 powr of_int (- 1) \<le> \<bar>1 - 1 / 2 ^ 60 :: real\<bar>"
    "\<bar>1 - 1 / 2 ^ 60 :: real\<bar> < 2 powr (of_int (- 1) + 1)"
    by (simp_all add: powr_minus_divide)
  have u: "2 powr (of_int (- 1) - 52) = (1 / 2 ^ 53 :: real)"
    by (simp add: powr_minus_divide)
  have y: "(1 - 1 / 2 ^ 60) / (1 / 2 ^ 53) = (2 ^ 53 - 1 / 2 ^ 7 :: real)"
    by simp
  have f: "\<lfloor>2 ^ 53 - 1 / 2 ^ 7 :: real\<rfloor> = 2 ^ 53 - 1"
    by (rule floor_unique) simp_all
  have "round_even (2 ^ 53 - 1 / 2 ^ 7) = 2 ^ 53"
    by (simp add: round_even_def f Let_def)
  then show ?thesis
    unfolding rnd64_binade [OF b] u y by simp
qed

lemma binary64_fields:
  "fp_sub binary64 a b = rnd64 (a - b)" "fp_mul binary64 a b = rnd64 (a * b)"
  "fp_add binary64 a b = rnd64 (a + b)" "fp_log binary64 x = rnd64 (ln x)"
  by (simp_all add: binary64_def)

text \<open>
  Claim C9, as amended. For every probability \<open>p\<close> strictly between 0 and 1: in every
  arithmetic that computes \<open>1 - p\<close> and \<open>1 - (1 - p)\<close> without rounding and whose addition
  commutes, the entropy function gives the same value at \<open>p\<close> and at \<open>1 - p\<close>; and in exact
  arithmetic, where this is so for every \<open>p\<close>, that value is a number that is at most
  \<open>ln 2\<close>, the value at one half.
\<close>

theorem entropy_symmetric_bounded:
  assumes "0 < p" and "p < 1"
  shows "(fp_sub A 1 p = 1 - p \<and> fp_sub A 1 (1 - p) = p \<and> (\<forall>a b. fp_add A a b = fp_add A b a)
            \<longrightarrow> entropy_elem_fp A p = entropy_elem_fp A (1 - p))
         \<and> entropy_elem_fp exact_arith p = entropy_elem p
         \<and> entropy_elem p = entropy_elem (1 - p)
         \<and> (\<exists>h. entropy_elem p = Num h \<and> h \<le> ln 2)
         \<and> entropy_elem (1 / 2) = Num (ln 2)"
proof -
  have f: "entropy_elem_fp A p = entropy_elem_fp A (1 - p)"
    if "fp_sub A 1 p = 1 - p \<and> fp_sub A 1 (1 - p) = p \<and> (\<forall>a b. fp_add A a b = fp_add A b a)"
  proof -
    from assms have q: "0 < 1 - p" "1 - p < 1" by simp_all
    from that have s: "fp_sub A 1 (1 - p) = 1 - (1 - p)" by simp
    from that have c: "fp_add A a b = fp_add A b a" for a b by blast
    show ?thesis
      unfolding entropy_elem_fp_inside [OF assms conjunct1 [OF that]]
        entropy_elem_fp_inside [OF q s]
      by (simp add: c [of "fp_mul A p (fp_log A p)"])
  qed
  have s: "entropy_elem p = entropy_elem (1 - p)"
    using assms by (simp add: entropy_elem_cases add.commute)
  have b: "\<exists>h. entropy_elem p = Num h \<and> h \<le> ln 2"
    using assms binary_entropy_le_ln2 [OF assms] by (simp add: entropy_elem_cases)
  have h: "entropy_elem (1 / 2) = Num (ln 2)"
    by (simp add: entropy_elem_cases ln_div)
  from f s b h entropy_elem_fp_exact [of p] show ?thesis by blast
qed

theorem entropy_symmetric_bounded_witness:
  "(0::real) < 3 / 4 \<and> (3 / 4 :: real) < 1
   \<and> fp_sub binary64 1 (3 / 4) = 1 - 3 / 4
   \<and> fp_sub binary64 1 (1 - 3 / 4) = 3 / 4
   \<and> entropy_elem_fp binary64 (3 / 4) = entropy_elem_fp binary64 (1 - 3 / 4)
   \<and> entropy_elem_fp exact_arith (3 / 4) = entropy_elem (3 / 4)
   \<and> entropy_elem (3 / 4) = entropy_elem (1 - 3 / 4)
   \<and> (\<exists>h. entropy_elem (3 / 4) = Num h \<and> h \<le> ln 2)
   \<and> entropy_elem (1 / 2) = Num (ln 2)"
proof -
  have pos: "(0::real) < 3 / 4" and less: "(3 / 4 :: real) < 1"
    by simp_all
  have s1: "fp_sub binary64 1 (3 / 4) = 1 - 3 / 4"
    by (simp add: binary64_fields rnd64_quarters)
  have s2: "fp_sub binary64 1 (1 - 3 / 4) = 3 / 4"
    by (simp add: binary64_fields rnd64_quarters)
  have c: "\<forall>a b. fp_add binary64 a b = fp_add binary64 b a"
    by (simp add: binary64_fields add.commute)
  from entropy_symmetric_bounded [OF pos less, of binary64] s1 s2 c pos less
  show ?thesis by blast
qed

text \<open>
  Claim C9, as stated, fails on floating-point tensors: in binary64 the probability
  \<open>p = 2^-60\<close> lies strictly between 0 and 1 and \<open>1 - p\<close> is rounded to 1, where the override
  makes the entropy 0, while the entropy at \<open>p\<close> is not 0.
\<close>

theorem entropy_symmetry_rounding_counterexample:
  "(0::real) < 1 / 2 ^ 60 \<and> (1 / 2 ^ 60 :: real) < 1
   \<and> fp_sub binary64 1 (1 / 2 ^ 60) = 1
   \<and> entropy_elem_fp binary64 (fp_sub binary64 1 (1 / 2 ^ 60)) = Num 0
   \<and> entropy_elem_fp binary64 (1 / 2 ^ 60) =
       Num (- rnd64 (rnd64 (1 / 2 ^ 60 * rnd64 (ln (1 / 2 ^ 60)))))
   \<and> rnd64 (rnd64 (1 / 2 ^ 60 * rnd64 (ln (1 / 2 ^ 60)))) \<noteq> 0
   \<and> entropy_elem_fp binary64 (1 / 2 ^ 60)
       \<noteq> entropy_elem_fp binary64 (fp_sub binary64 1 (1 / 2 ^ 60))"
proof -
  have s: "fp_sub binary64 1 (1 / 2 ^ 60) = 1"
    by (simp only: binary64_fields rnd64_near_one)
  have z: "rnd64 0 = 0"
    by (simp add: rnd64_def)
  have one: "entropy_elem_fp binary64 1 = Num 0"
    by (simp add: entropy_elem_fp_def)
  have x1: "xlogx_fp binary64 1 = Num 0"
    by (simp add: xlogx_fp_def binary64_fields z)
  have xp: "xlogx_fp binary64 (1 / 2 ^ 60) = Num (rnd64 (1 / 2 ^ 60 * rnd64 (ln (1 / 2 ^ 60))))"
    by (simp add: xlogx_fp_def binary64_fields)
  have "entropy_formula_fp binary64 (1 / 2 ^ 60) =
          Num (- rnd64 (rnd64 (1 / 2 ^ 60 * rnd64 (ln (1 / 2 ^ 60)))))"
    unfolding entropy_formula_fp_def s x1 xp by (simp add: binary64_fields)
  then have v: "entropy_elem_fp binary64 (1 / 2 ^ 60) =
          Num (- rnd64 (rnd64 (1 / 2 ^ 60 * rnd64 (ln (1 / 2 ^ 60)))))"
    by (simp add: entropy_elem_fp_def)
  have "ln (1 / 2 ^ 60 :: real) \<noteq> 0"
    by simp
  then have "rnd64 (ln (1 / 2 ^ 60)) \<noteq> 0"
    by (rule rnd64_nonzero)
  then have "1 / 2 ^ 60 * rnd64 (ln (1 / 2 ^ 60)) \<noteq> 0"
    by simp
  then have "rnd64 (1 / 2 ^ 60 * rnd64 (ln (1 / 2 ^ 60))) \<noteq> 0"
    by (rule rnd64_nonzero)
  then have n: "rnd64 (rnd64 (1 / 2 ^ 60 * rnd64 (ln (1 / 2 ^ 60)))) \<noteq> 0"
    by (rule rnd64_nonzero)
  have d: "entropy_elem_fp binary64 (1 / 2 ^ 60)
             \<noteq> entropy_elem_fp binary64 (fp_sub binary64 1 (1 / 2 ^ 60))"
    unfolding s one v using n by simp
  have p: "(0::real) < 1 / 2 ^ 60" "(1 / 2 ^ 60 :: real) < 1"
    by simp_all
  from p s one v n d show ?thesis
    by (simp only: s one) simp
qed

section \<open>The loop and the aggregation\<close>

text \<open>
  The loop with a cap runs the body on the batches before the cap.
\<close>

lemma eval_loop_bodies:
  "eval_loop ext model nb i bs a =
     bodies ext model
       (case nb of None \<Rightarrow> bs | Some n \<Rightarrow> if n < i then bs else take (nat (n - i)) bs) a"
proof (induction bs arbitrary: i a)
  case Nil
  show ?case by (simp split: option.splits)
next
  case (Cons b rest)
  show ?case
  proof (cases nb)
    case None
    with Cons show ?thesis by (simp split: sum.splits)
  next
    case (Some n)
    consider "n < i" | "n = i" | "i < n" by linarith
    then show ?thesis
    proof cases
      case 1
      with Some Cons [of "i + 1"] show ?thesis by (simp split: sum.splits)
    next
      case 2
      with Some show ?thesis by simp
    next
      case 3
      then have "nat (n - i) = Suc (nat (n - (i + 1)))" by simp
      with 3 Some Cons [of "i + 1"] show ?thesis by (simp split: sum.splits)
    qed
  qed
qed

lemma eval_loop_processed:
  "eval_loop ext model nb 0 bs a = bodies ext model (processed nb bs) a"
  by (simp add: eval_loop_bodies processed_def split: option.splits)

lemma processed_empty:
  assumes "batches = [] \<or> nb = Some 0"
  shows "processed nb batches = []"
  using assms by (auto simp: processed_def split: option.splits)

text \<open>
  What a pass through the body, and a sequence of passes, appends to the four lists.
\<close>

lemma loop_body_acc:
  assumes "loop_body ext model b a = Inr a'"
  shows "all_ssims a' = all_ssims a @ [batch_ssim ext model b]"
    and "all_psnrs a' =
           all_psnrs a @ map (\<lambda>(gt, rec, maxval). psnr ext gt rec maxval) (batch_images model b)"
    and "all_nmses a' =
           all_nmses a @ map (\<lambda>(gt, rec, maxval). nmse ext gt rec) (batch_images model b)"
    and "all_prob_masks a' = all_prob_masks a @ batch_masks model b"
  using assms
  by (auto simp: loop_body_def batch_ssim_def batch_images_def batch_masks_def batch_output_def
        batch_extra_def Let_def
      split: prod.splits option.splits if_splits list.splits)

lemma bodies_acc:
  assumes "bodies ext model bs a = Inr a'"
  shows "all_ssims a' = all_ssims a @ map (batch_ssim ext model) bs"
    and "all_psnrs a' =
           all_psnrs a
           @ map (\<lambda>(gt, rec, maxval). psnr ext gt rec maxval) (concat (map (batch_images model) bs))"
    and "all_nmses a' =
           all_nmses a
           @ map (\<lambda>(gt, rec, maxval). nmse ext gt rec) (concat (map (batch_images model) bs))"
    and "all_prob_masks a' = all_prob_masks a @ concat (map (batch_masks model) bs)"
  using assms
proof (induction bs arbitrary: a)
  case Nil
  { case 1 then show ?case by simp }
  { case 2 then show ?case by simp }
  { case 3 then show ?case by simp }
  { case 4 then show ?case by simp }
next
  case (Cons b rest)
  { case 1 then show ?case by (auto split: sum.splits simp: Cons.IH(1) loop_body_acc(1)) }
  { case 2 then show ?case by (auto split: sum.splits simp: Cons.IH(2) loop_body_acc(2)) }
  { case 3 then show ?case by (auto split: sum.splits simp: Cons.IH(3) loop_body_acc(3)) }
  { case 4 then show ?case by (auto split: sum.splits simp: Cons.IH(4) loop_body_acc(4)) }
qed

lemma no_masks_collected:
  assumes "\<forall>b \<in> set bs. batch_extra model b ''prob_masks'' = None"
  shows "concat (map (batch_masks model) bs) = []"
  using assms by (induction bs) (simp_all add: batch_masks_def)

text \<open>
  The aggregation: the three base entries, the keys without masks, the statistics with masks.
\<close>

lemma reported_last: "reported (outs @ [PrintReport rd]) = rd"
  by (rule ext) (simp add: reported_def)

lemma mask_statistics_eq:
  "mask_statistics rows = Inr (cond_ent rows, marg_ent rows, fl_sub (marg_ent rows) (cond_ent rows))"
  by (simp add: mask_statistics_def sum_dim1_def entropy_def mean_dim0_def comp_def
      marg_ent_def cond_ent_def marginal_probability_def Let_def)

lemma finalize_base:
  assumes "finalize a = (out2, Inr rd)"
  shows "all_psnrs a \<noteq> [] \<and> all_nmses a \<noteq> []
         \<and> rd ''ssim'' = Some (mean (concat (all_ssims a)))
         \<and> rd ''psnr'' = Some (mean (all_psnrs a))
         \<and> rd ''nmse'' = Some (mean (all_nmses a))"
  using assms
  by (auto simp: finalize_def np_concatenate_def torch_cat_flat_def mask_statistics_eq Let_def
      split: if_splits sum.splits)

lemma finalize_no_masks:
  assumes "finalize a = (out2, Inr rd)" and "all_prob_masks a = []"
  shows "dom rd = {''ssim'', ''psnr'', ''nmse''}"
  using assms
  by (auto simp: finalize_def np_concatenate_def torch_cat_flat_def Let_def
      split: if_splits sum.splits)

lemma finalize_masks:
  assumes "finalize a = (out2, Inr rd)" and "all_prob_masks a \<noteq> []"
  shows "rd ''marg_ent_ind'' = Some (marg_ent (concat (all_prob_masks a)))
         \<and> rd ''cond_ent_ind'' = Some (cond_ent (concat (all_prob_masks a)))
         \<and> rd ''mi_ind'' =
             Some (fl_sub (marg_ent (concat (all_prob_masks a))) (cond_ent (concat (all_prob_masks a))))"
  using assms
  by (auto simp: finalize_def np_concatenate_def torch_cat_flat_def torch_cat_def
        mask_statistics_eq Let_def
      split: if_splits sum.splits)

text \<open>
  A run that returns has loaded a model, run the body on the processed batches and printed the report last.
\<close>

lemma load_block_no_report: "PrintReport rd \<notin> set (fst (load_block ext fname))"
  by (simp add: load_block_def load_model_def Let_def split: sum.splits prod.splits)

lemma cli_main_returns:
  assumes "load_block ext (load_checkpoint ar) = (out1, Inr model)"
      and "cli_main ext dm ar = (outs, None)"
  shows "\<exists>a out2 rd.
           bodies ext model (processed (num_batches ar) (data_loader dm ar)) acc0 = Inr a
           \<and> finalize a = (out2, Inr rd)
           \<and> outs = out1 @ out2 @ [PrintReport rd]"
  using assms
  by (auto simp: cli_main_def evaluation_def eval_loop_processed
      split: sum.splits prod.splits)

lemma cli_main_report:
  assumes "load_block ext (load_checkpoint ar) = (out1, Inr model)"
      and "cli_main ext dm ar = (outs, None)"
  obtains a out2 where
    "bodies ext model (processed (num_batches ar) (data_loader dm ar)) acc0 = Inr a"
    and "finalize a = (out2, Inr (reported outs))"
proof -
  from cli_main_returns [OF assms] obtain a out2 rd where
    b: "bodies ext model (processed (num_batches ar) (data_loader dm ar)) acc0 = Inr a"
    and f: "finalize a = (out2, Inr rd)"
    and o: "outs = out1 @ out2 @ [PrintReport rd]"
    by blast
  from o have "outs = (out1 @ out2) @ [PrintReport rd]" by simp
  then have "reported outs = rd" by (simp only: reported_last)
  with b f that show thesis by simp
qed

section \<open>The example run without masks\<close>

lemma ex_load: "snd (load_block (ex_ext mdl) fname) = Inr mdl"
  by (simp add: load_block_def load_model_def ex_ext_def)

lemma ex_eval:
  "evaluation (ex_ext ex_module) ex_module None [ex_batch1, ex_batch2] =
     ([], Inr [''ssim'' \<mapsto> Num (2 / 5), ''psnr'' \<mapsto> Num (2 / 5), ''nmse'' \<mapsto> Num (3 / 5)])"
  by (simp add: evaluation_def loop_body_def acc0_def ex_ext_def ex_module_def ex_batch1_def
      ex_batch2_def finalize_def np_concatenate_def torch_cat_flat_def mean_def)

lemma ex_main:
  "cli_main (ex_ext ex_module) ex_dm ex_args =
     (fst (load_block (ex_ext ex_module) ''ckpt'') @
        [PrintReport [''ssim'' \<mapsto> Num (2 / 5), ''psnr'' \<mapsto> Num (2 / 5), ''nmse'' \<mapsto> Num (3 / 5)]],
      None)"
proof -
  have l: "load_block (ex_ext ex_module) ''ckpt'' =
             (fst (load_block (ex_ext ex_module) ''ckpt''), Inr ex_module)"
    using ex_load [of ex_module "''ckpt''"] by (simp add: prod_eq_iff)
  have d: "data_loader ex_dm ex_args = [ex_batch1, ex_batch2]"
    by (simp add: data_loader_def ex_dm_def ex_args_def)
  have a: "load_checkpoint ex_args = ''ckpt''" "num_batches ex_args = None"
    by (simp_all add: ex_args_def)
  show ?thesis
    unfolding cli_main_def a d by (subst l) (simp add: ex_eval)
qed

lemma ex_ssims:
  "map (batch_ssim (ex_ext ex_module) ex_module) [ex_batch1, ex_batch2] = [[1, 1], [0, 0, 0]]"
  by (simp add: batch_ssim_def batch_output_def ex_ext_def ex_module_def ex_batch1_def
      ex_batch2_def)

lemma ex_images:
  "concat (map (batch_images ex_module) [ex_batch1, ex_batch2]) =
     [(1, 1, 1), (1, 1, 1), (1, 0, 1), (1, 0, 1), (1, 0, 1)]"
  by (simp add: batch_images_def batch_output_def ex_module_def ex_batch1_def ex_batch2_def)

section \<open>Aggregated metrics\<close>

text \<open>
  Claim C1, as amended. The similarity that \<^verbatim>\<open>cli_main\<close> reports is the mean over all entries of
  the per-batch similarity tensors concatenated along the batch dimension: a flat mean over
  the samples of all processed batches, not the mean of one mean for each batch.
\<close>

theorem ssim_flat_mean:
  assumes "load_block ext (load_checkpoint ar) = (out1, Inr model)"
      and "cli_main ext dm ar = (outs, None)"
  shows "reported outs ''ssim'' =
           Some (mean (concat (map (batch_ssim ext model)
                                 (processed (num_batches ar) (data_loader dm ar)))))"
proof -
  from assms obtain a out2 where
    b: "bodies ext model (processed (num_batches ar) (data_loader dm ar)) acc0 = Inr a"
    and f: "finalize a = (out2, Inr (reported outs))"
    by (rule cli_main_report)
  have "all_ssims a = map (batch_ssim ext model) (processed (num_batches ar) (data_loader dm ar))"
    using bodies_acc(1) [OF b] by (simp add: acc0_def)
  with finalize_base [OF f] show ?thesis by simp
qed

theorem ssim_flat_mean_witness:
  "load_block (ex_ext ex_module) (load_checkpoint ex_args) =
     (fst (load_block (ex_ext ex_module) ''ckpt''), Inr ex_module)
   \<and> snd (cli_main (ex_ext ex_module) ex_dm ex_args) = None
   \<and> reported (fst (cli_main (ex_ext ex_module) ex_dm ex_args)) ''ssim'' =
       Some (mean ([1, 1] @ [0, 0, 0]))"
proof -
  have l: "load_block (ex_ext ex_module) (load_checkpoint ex_args) =
             (fst (load_block (ex_ext ex_module) ''ckpt''), Inr ex_module)"
    using ex_load [of ex_module "''ckpt''"] by (simp add: prod_eq_iff ex_args_def)
  have c: "cli_main (ex_ext ex_module) ex_dm ex_args =
             (fst (cli_main (ex_ext ex_module) ex_dm ex_args), None)"
    by (simp add: ex_main)
  have d: "processed (num_batches ex_args) (data_loader ex_dm ex_args) = [ex_batch1, ex_batch2]"
    by (simp add: processed_def data_loader_def ex_dm_def ex_args_def)
  from ssim_flat_mean [OF l c] have
    "reported (fst (cli_main (ex_ext ex_module) ex_dm ex_args)) ''ssim'' =
       Some (mean ([1, 1] @ [0, 0, 0]))"
    unfolding d ex_ssims by simp
  with l c show ?thesis by (simp add: ex_main)
qed

text \<open>
  Claim C1, as stated, fails: for two batches of sizes 2 and 3 whose similarity tensors are
  \<open>[1, 1]\<close> and \<open>[0, 0, 0]\<close>, with batch means 1 and 0, the run reports \<open>2 / 5\<close>, the mean over
  the 5 images, and not \<open>1 / 2\<close>, the mean of the two batch means.
\<close>

theorem ssim_batch_means_counterexample:
  "snd (cli_main (ex_ext ex_module) ex_dm ex_args) = None
   \<and> map (batch_ssim (ex_ext ex_module) ex_module)
         (processed (num_batches ex_args) (data_loader ex_dm ex_args)) = [[1, 1], [0, 0, 0]]
   \<and> reported (fst (cli_main (ex_ext ex_module) ex_dm ex_args)) ''ssim'' = Some (Num (2 / 5))
   \<and> fl_mean (map mean [[1, 1], [0, 0, 0]]) = Num (1 / 2)
   \<and> reported (fst (cli_main (ex_ext ex_module) ex_dm ex_args)) ''ssim''
       \<noteq> Some (fl_mean (map mean (map (batch_ssim (ex_ext ex_module) ex_module)
                 (processed (num_batches ex_args) (data_loader ex_dm ex_args)))))"
proof -
  have d: "processed (num_batches ex_args) (data_loader ex_dm ex_args) = [ex_batch1, ex_batch2]"
    by (simp add: processed_def data_loader_def ex_dm_def ex_args_def)
  have m: "fl_mean (map mean [[1, 1], [0, 0, 0]]) = Num (1 / 2)"
    by (simp add: fl_mean_def mean_def)
  have r: "reported (fst (cli_main (ex_ext ex_module) ex_dm ex_args)) ''ssim'' = Some (Num (2 / 5))"
    by (simp add: ex_main reported_last)
  show ?thesis
    unfolding d ex_ssims m r by (simp add: ex_main)
qed

text \<open>
  Claim C5. The signal-to-noise ratio and the normalised error are computed for each image
  of each processed batch from that image's ground truth and reconstruction (and, for the
  former, that image's max-value), and the two reported numbers are the arithmetic means over
  all these images, whatever the batch boundaries.
\<close>

theorem psnr_nmse_flat_mean:
  assumes "load_block ext (load_checkpoint ar) = (out1, Inr model)"
      and "cli_main ext dm ar = (outs, None)"
  shows "let images = concat (map (batch_images model)
                                (processed (num_batches ar) (data_loader dm ar)))
         in images \<noteq> []
            \<and> reported outs ''psnr'' =
                Some (Num (sum_list (map (\<lambda>(gt, rec, maxval). psnr ext gt rec maxval) images)
                             / real (length images)))
            \<and> reported outs ''nmse'' =
                Some (Num (sum_list (map (\<lambda>(gt, rec, maxval). nmse ext gt rec) images)
                             / real (length images)))"
proof -
  from assms obtain a out2 where
    b: "bodies ext model (processed (num_batches ar) (data_loader dm ar)) acc0 = Inr a"
    and f: "finalize a = (out2, Inr (reported outs))"
    by (rule cli_main_report)
  have p: "all_psnrs a = map (\<lambda>(gt, rec, maxval). psnr ext gt rec maxval)
             (concat (map (batch_images model) (processed (num_batches ar) (data_loader dm ar))))"
    using bodies_acc(2) [OF b] by (simp add: acc0_def)
  have n: "all_nmses a = map (\<lambda>(gt, rec, maxval). nmse ext gt rec)
             (concat (map (batch_images model) (processed (num_batches ar) (data_loader dm ar))))"
    using bodies_acc(3) [OF b] by (simp add: acc0_def)
  from finalize_base [OF f] have ne: "all_psnrs a \<noteq> []"
    and rp: "reported outs ''psnr'' = Some (mean (all_psnrs a))"
    and rn: "reported outs ''nmse'' = Some (mean (all_nmses a))"
    by simp_all
  from ne p have ine: "concat (map (batch_images model)
      (processed (num_batches ar) (data_loader dm ar))) \<noteq> []"
    by auto
  show ?thesis
    unfolding Let_def using ine rp rn by (simp add: p n mean_def)
qed

theorem psnr_nmse_flat_mean_witness:
  "load_block (ex_ext ex_module) (load_checkpoint ex_args) =
     (fst (load_block (ex_ext ex_module) ''ckpt''), Inr ex_module)
   \<and> snd (cli_main (ex_ext ex_module) ex_dm ex_args) = None
   \<and> length (concat (map (batch_images ex_module)
         (processed (num_batches ex_args) (data_loader ex_dm ex_args)))) = 5
   \<and> reported (fst (cli_main (ex_ext ex_module) ex_dm ex_args)) ''psnr'' =
       Some (Num ((1 + 1 + 0 + 0 + 0) / 5))
   \<and> reported (fst (cli_main (ex_ext ex_module) ex_dm ex_args)) ''nmse'' =
       Some (Num ((0 + 0 + 1 + 1 + 1) / 5))"
proof -
  have l: "load_block (ex_ext ex_module) (load_checkpoint ex_args) =
             (fst (load_block (ex_ext ex_module) ''ckpt''), Inr ex_module)"
    using ex_load [of ex_module "''ckpt''"] by (simp add: prod_eq_iff ex_args_def)
  have c: "cli_main (ex_ext ex_module) ex_dm ex_args =
             (fst (cli_main (ex_ext ex_module) ex_dm ex_args), None)"
    by (simp add: ex_main)
  have d: "processed (num_batches ex_args) (data_loader ex_dm ex_args) = [ex_batch1, ex_batch2]"
    by (simp add: processed_def data_loader_def ex_dm_def ex_args_def)
  have e: "psnr (ex_ext ex_module) = (\<lambda>gt rec maxval. maxval - \<bar>gt - rec\<bar>)"
    "nmse (ex_ext ex_module) = (\<lambda>gt rec. \<bar>gt - rec\<bar>)"
    by (simp_all add: ex_ext_def)
  from psnr_nmse_flat_mean [OF l c] have
    "reported (fst (cli_main (ex_ext ex_module) ex_dm ex_args)) ''psnr'' =
       Some (Num ((1 + 1 + 0 + 0 + 0) / 5))
     \<and> reported (fst (cli_main (ex_ext ex_module) ex_dm ex_args)) ''nmse'' =
       Some (Num ((0 + 0 + 1 + 1 + 1) / 5))"
    unfolding d ex_images e Let_def by simp
  with l c show ?thesis
    unfolding d ex_images by (simp add: ex_main)
qed

text \<open>
  Claim C6. When no processed batch has the key \<^verbatim>\<open>prob_masks\<close> in its auxiliary outputs, so that
  no mask is ever collected, the report has exactly the keys \<^verbatim>\<open>ssim\<close>, \<^verbatim>\<open>psnr\<close> and \<^verbatim>\<open>nmse\<close>:
  the three entropy keys are absent.
\<close>

theorem no_masks_three_keys:
  assumes "load_block ext (load_checkpoint ar) = (out1, Inr model)"
      and "cli_main ext dm ar = (outs, None)"
      and "\<forall>b \<in> set (processed (num_batches ar) (data_loader dm ar)).
             batch_extra model b ''prob_masks'' = None"
  shows "dom (reported outs) = {''ssim'', ''psnr'', ''nmse''}"
proof -
  from assms(1,2) obtain a out2 where
    b: "bodies ext model (processed (num_batches ar) (data_loader dm ar)) acc0 = Inr a"
    and f: "finalize a = (out2, Inr (reported outs))"
    by (rule cli_main_report)
  have "all_prob_masks a = []"
    using bodies_acc(4) [OF b] no_masks_collected [OF assms(3)] by (simp add: acc0_def)
  with f show ?thesis by (rule finalize_no_masks)
qed

theorem no_masks_three_keys_witness:
  "load_block (ex_ext ex_module) (load_checkpoint ex_args) =
     (fst (load_block (ex_ext ex_module) ''ckpt''), Inr ex_module)
   \<and> snd (cli_main (ex_ext ex_module) ex_dm ex_args) = None
   \<and> map (\<lambda>b. batch_extra ex_module b ''prob_masks'')
         (processed (num_batches ex_args) (data_loader ex_dm ex_args)) = [None, None]
   \<and> dom (reported (fst (cli_main (ex_ext ex_module) ex_dm ex_args))) = {''ssim'', ''psnr'', ''nmse''}"
proof -
  have l: "load_block (ex_ext ex_module) (load_checkpoint ex_args) =
             (fst (load_block (ex_ext ex_module) ''ckpt''), Inr ex_module)"
    using ex_load [of ex_module "''ckpt''"] by (simp add: prod_eq_iff ex_args_def)
  have c: "cli_main (ex_ext ex_module) ex_dm ex_args =
             (fst (cli_main (ex_ext ex_module) ex_dm ex_args), None)"
    by (simp add: ex_main)
  have n: "\<forall>b \<in> set (processed (num_batches ex_args) (data_loader ex_dm ex_args)).
             batch_extra ex_module b ''prob_masks'' = None"
    by (simp add: batch_extra_def ex_module_def)
  have d: "processed (num_batches ex_args) (data_loader ex_dm ex_args) = [ex_batch1, ex_batch2]"
    by (simp add: processed_def data_loader_def ex_dm_def ex_args_def)
  have m: "map (\<lambda>b. batch_extra ex_module b ''prob_masks'')
             (processed (num_batches ex_args) (data_loader ex_dm ex_args)) = [None, None]"
    unfolding d by (simp add: batch_extra_def ex_module_def)
  from no_masks_three_keys [OF l c n] l c m show ?thesis
    by (simp add: ex_main)
qed

text \<open>
  Claim C10. When the loop processes no batch (the data loader is empty, or the cap is 0), a
  run that loaded its model ends with the ValueError of the concatenation of the empty list
  of per-image metrics, and has printed no report.
\<close>

theorem zero_batches_no_report:
  assumes "load_block ext (load_checkpoint ar) = (out1, Inr model)"
      and "data_loader dm ar = [] \<or> num_batches ar = Some 0"
  shows "cli_main ext dm ar = (out1, Some ValueError) \<and> (\<forall>rd. PrintReport rd \<notin> set out1)"
proof -
  have "processed (num_batches ar) (data_loader dm ar) = []"
    using assms(2) by (rule processed_empty)
  then have "evaluation ext model (num_batches ar) (data_loader dm ar) = ([], Inl ValueError)"
    by (simp add: evaluation_def eval_loop_processed finalize_def np_concatenate_def acc0_def)
  with assms(1) have "cli_main ext dm ar = (out1, Some ValueError)"
    by (simp add: cli_main_def)
  moreover have "\<forall>rd. PrintReport rd \<notin> set out1"
    using load_block_no_report [of _ ext "load_checkpoint ar"] assms(1) by simp
  ultimately show ?thesis by simp
qed

theorem zero_batches_no_report_witness:
  "load_block (ex_ext ex_module) (load_checkpoint (ex_args\<lparr>num_batches := Some 0\<rparr>)) =
     (fst (load_block (ex_ext ex_module) ''ckpt''), Inr ex_module)
   \<and> (data_loader ex_dm (ex_args\<lparr>num_batches := Some 0\<rparr>) = []
        \<or> num_batches (ex_args\<lparr>num_batches := Some 0\<rparr>) = Some 0)
   \<and> data_loader ex_dm (ex_args\<lparr>num_batches := Some 0\<rparr>) \<noteq> []
   \<and> snd (cli_main (ex_ext ex_module) ex_dm (ex_args\<lparr>num_batches := Some 0\<rparr>)) = Some ValueError"
proof -
  have l: "load_block (ex_ext ex_module) (load_checkpoint (ex_args\<lparr>num_batches := Some 0\<rparr>)) =
             (fst (load_block (ex_ext ex_module) ''ckpt''), Inr ex_module)"
    using ex_load [of ex_module "''ckpt''"] by (simp add: prod_eq_iff ex_args_def)
  have z: "data_loader ex_dm (ex_args\<lparr>num_batches := Some 0\<rparr>) = []
           \<or> num_batches (ex_args\<lparr>num_batches := Some 0\<rparr>) = Some 0"
    by simp
  have d: "data_loader ex_dm (ex_args\<lparr>num_batches := Some 0\<rparr>) \<noteq> []"
    by (simp add: data_loader_def ex_dm_def ex_args_def)
  from zero_batches_no_report [OF l z] l z d show ?thesis
    by simp
qed

section \<open>The example runs with masks\<close>

lemma ex_args_fields:
  "load_checkpoint ex_args = ''ckpt''" "num_batches ex_args = None" "data_mode ex_args = ''val''"
  by (simp_all add: ex_args_def)

lemma ex_load_pair:
  "load_block (ex_ext mdl) fname = (fst (load_block (ex_ext mdl) fname), Inr mdl)"
  using ex_load [of mdl fname] by (simp add: prod_eq_iff)

lemma run_of_eval:
  assumes "snd (load_block ext (load_checkpoint ar)) = Inr model"
      and "evaluation ext model (num_batches ar) (data_loader dm ar) = (out2, Inr rd)"
  shows "cli_main ext dm ar =
           (fst (load_block ext (load_checkpoint ar)) @ out2 @ [PrintReport rd], None)"
proof -
  obtain out1 r where lb: "load_block ext (load_checkpoint ar) = (out1, r)"
    by (cases "load_block ext (load_checkpoint ar)")
  with assms(1) have "r = Inr model" by simp
  with lb assms(2) show ?thesis by (simp add: cli_main_def)
qed

lemma entropy_elem_two_thirds: "entropy_elem (2 / 3) = Num (binary_entropy (2 / 3))"
  by (simp add: entropy_elem_cases binary_entropy_def)

lemma rows3_marginal:
  "map (marginal_probability rows3) [0 ..< ncols rows3] = [2 / 3, 2 / 3, 2 / 3, 0]"
  by (simp add: rows3_def ncols_def marginal_probability_def upt_rec)

lemma rows3_marg_ent: "marg_ent rows3 = Num (3 * binary_entropy (2 / 3))"
proof -
  have "marg_ent rows3 = fl_sum (map entropy_elem (map (marginal_probability rows3) [0 ..< ncols rows3]))"
    by (simp add: marg_ent_def comp_def)
  also have "\<dots> = fl_sum [entropy_elem (2 / 3), entropy_elem (2 / 3), entropy_elem (2 / 3), entropy_elem 0]"
    unfolding rows3_marginal by simp
  also have "\<dots> = Num (3 * binary_entropy (2 / 3))"
    unfolding entropy_elem_two_thirds by (simp add: entropy_elem_cases)
  finally show ?thesis .
qed

lemma rows3_cond_ent: "cond_ent rows3 = Num 0"
  by (simp add: cond_ent_def rows3_def entropy_elem_cases fl_mean_def)

lemma pol_eval:
  "evaluation (ex_ext pol_module) pol_module None (val_dataloader pol_dm) =
     ([PrintComputed 3 4],
      Inr [''ssim'' \<mapsto> Num 1, ''psnr'' \<mapsto> Num 1, ''nmse'' \<mapsto> Num 0,
           ''cond_ent_ind'' \<mapsto> Num 0,
           ''marg_ent_ind'' \<mapsto> Num (3 * binary_entropy (2 / 3)),
           ''mi_ind'' \<mapsto> Num (3 * binary_entropy (2 / 3))])"
proof -
  have l: "eval_loop (ex_ext pol_module) pol_module None 0 (val_dataloader pol_dm) acc0 =
             Inr \<lparr>all_prob_masks = [[[1, 1, 0, 0]], [[1, 0, 1, 0]], [[0, 1, 1, 0]]],
                  all_ssims = [[1], [1], [1]], all_psnrs = [1, 1, 1], all_nmses = [0, 0, 0]\<rparr>"
    by (simp add: loop_body_def acc0_def ex_ext_def pol_module_def mask_module_def pol_dm_def
        mask_batch_def isclose_def)
  have c: "torch_cat [[[1, 1, 0, 0]], [[1, 0, 1, 0]], [[0, 1, 1, 0]]] = Inr rows3"
    by (simp add: torch_cat_def ncols_def rows3_def)
  have n: "length rows3 = 3" "ncols rows3 = 4"
    by (simp_all add: rows3_def ncols_def)
  have s: "mask_statistics rows3 =
             Inr (Num 0, Num (3 * binary_entropy (2 / 3)), Num (3 * binary_entropy (2 / 3)))"
    unfolding mask_statistics_eq rows3_marg_ent rows3_cond_ent by simp
  show ?thesis
    unfolding evaluation_def l
    by (simp add: finalize_def np_concatenate_def torch_cat_flat_def mean_def c s n)
qed

lemma pol_main:
  "cli_main (ex_ext pol_module) pol_dm ex_args =
     (fst (load_block (ex_ext pol_module) (load_checkpoint ex_args)) @ [PrintComputed 3 4] @
        [PrintReport [''ssim'' \<mapsto> Num 1, ''psnr'' \<mapsto> Num 1, ''nmse'' \<mapsto> Num 0,
           ''cond_ent_ind'' \<mapsto> Num 0,
           ''marg_ent_ind'' \<mapsto> Num (3 * binary_entropy (2 / 3)),
           ''mi_ind'' \<mapsto> Num (3 * binary_entropy (2 / 3))]],
      None)"
proof (rule run_of_eval)
  show "snd (load_block (ex_ext pol_module) (load_checkpoint ex_args)) = Inr pol_module"
    by (rule ex_load)
  have "num_batches ex_args = None" "data_loader pol_dm ex_args = val_dataloader pol_dm"
    by (simp_all add: ex_args_def data_loader_def)
  then show "evaluation (ex_ext pol_module) pol_module (num_batches ex_args)
        (data_loader pol_dm ex_args) =
     ([PrintComputed 3 4],
      Inr [''ssim'' \<mapsto> Num 1, ''psnr'' \<mapsto> Num 1, ''nmse'' \<mapsto> Num 0,
           ''cond_ent_ind'' \<mapsto> Num 0,
           ''marg_ent_ind'' \<mapsto> Num (3 * binary_entropy (2 / 3)),
           ''mi_ind'' \<mapsto> Num (3 * binary_entropy (2 / 3))])"
    by (simp only: pol_eval)
qed

lemma pol_masks:
  "concat (map (batch_masks pol_module) (processed (num_batches ex_args) (data_loader pol_dm ex_args)))
     = [[[1, 1, 0, 0]], [[1, 0, 1, 0]], [[0, 1, 1, 0]]]"
  by (simp add: processed_def data_loader_def ex_args_def pol_dm_def batch_masks_def
      batch_extra_def pol_module_def mask_module_def mask_batch_def)

lemma pol2_processed:
  "processed (num_batches ex_args) (data_loader pol2_dm ex_args) =
     [mask_batch [1, 1, 0, 0] [1, 1, 1, 1]]"
  by (simp add: processed_def data_loader_def ex_args_def pol2_dm_def)

section \<open>The assertions of the loop\<close>

lemma bodies_append:
  "bodies ext model (xs @ ys) a =
     (case bodies ext model xs a of Inl e \<Rightarrow> Inl e | Inr a' \<Rightarrow> bodies ext model ys a')"
  by (induction xs arbitrary: a) (simp_all split: sum.splits)

lemma bodies_fail_at:
  assumes "i < length bs" and "\<And>a. loop_body ext model (bs ! i) a = Inl e"
  shows "bodies ext model bs a0 =
           (case bodies ext model (take i bs) a0 of Inl e' \<Rightarrow> Inl e' | Inr a \<Rightarrow> Inl e)"
proof -
  from assms(1) have "bs = take i bs @ (bs ! i # drop (Suc i) bs)"
    by (simp add: id_take_nth_drop)
  then have "bodies ext model bs a0 = bodies ext model (take i bs @ (bs ! i # drop (Suc i) bs)) a0"
    by simp
  also have "\<dots> = (case bodies ext model (take i bs) a0 of Inl e' \<Rightarrow> Inl e' | Inr a \<Rightarrow> Inl e)"
    unfolding bodies_append by (simp add: assms(2) split: sum.splits)
  finally show ?thesis .
qed

lemma cli_main_fail_at:
  assumes "load_block ext (load_checkpoint ar) = (out1, Inr model)"
      and "i < length (processed (num_batches ar) (data_loader dm ar))"
      and "\<And>a. loop_body ext model (processed (num_batches ar) (data_loader dm ar) ! i) a = Inl e"
  shows "cli_main ext dm ar =
           (out1, Some (case bodies ext model
                               (take i (processed (num_batches ar) (data_loader dm ar))) acc0 of
                          Inl e' \<Rightarrow> e' | Inr a \<Rightarrow> e))"
  using assms(1) bodies_fail_at [OF assms(2,3), of acc0]
  by (simp add: cli_main_def evaluation_def eval_loop_processed split: sum.splits)

lemma loop_body_policies:
  assumes "batch_extra model b ''prob_masks'' = Some ms" and "length ms \<noteq> 1"
  shows "loop_body ext model b a = Inl (AssertionError MultiplePolicies)"
  using assms by (auto simp: loop_body_def batch_extra_def Let_def split: prod.splits)

lemma loop_body_budget:
  assumes "batch_extra model b ''prob_masks'' = Some [row0 # rest]"
      and "budget model = Some bud" and "\<not> isclose (tensor_sum ext row0) bud"
  shows "loop_body ext model b a =
           Inl (AssertionError (BudgetMismatch bud (tensor_sum ext row0)))"
  using assms by (auto simp: loop_body_def batch_extra_def Let_def split: prod.splits)

text \<open>
  The rows after the first are not read by the assertion: when the first row passes, the
  body appends the whole tensor, whatever its other rows are.
\<close>

lemma loop_body_rest_unchecked:
  assumes "batch_extra model b ''prob_masks'' = Some [row0 # rest]"
      and "budget model = Some bud" and "isclose (tensor_sum ext row0) bud"
  shows "\<exists>a'. loop_body ext model b a = Inr a'
              \<and> all_prob_masks a' = all_prob_masks a @ [row0 # rest]"
  using assms by (auto simp: loop_body_def batch_extra_def Let_def split: prod.splits)

lemma loop_body_masks_checked:
  assumes "loop_body ext model b a = Inr a'" and "t \<in> set (batch_masks model b)"
  shows "first_row_close ext model t"
  using assms
  by (auto simp: loop_body_def batch_masks_def batch_extra_def first_row_close_def Let_def
      split: prod.splits option.splits if_splits list.splits)

lemma bodies_masks_checked:
  assumes "bodies ext model bs a = Inr a'" and "t \<in> set (concat (map (batch_masks model) bs))"
  shows "first_row_close ext model t"
  using assms
proof (induction bs arbitrary: a)
  case Nil
  then show ?case by simp
next
  case (Cons b rest)
  from Cons.prems(1) obtain a1 where
    b: "loop_body ext model b a = Inr a1" and r: "bodies ext model rest a1 = Inr a'"
    by (auto split: sum.splits)
  from Cons.prems(2) consider "t \<in> set (batch_masks model b)"
    | "t \<in> set (concat (map (batch_masks model) rest))"
    by auto
  then show ?case
  proof cases
    case 1
    with b show ?thesis by (rule loop_body_masks_checked)
  next
    case 2
    with r show ?thesis by (rule Cons.IH)
  qed
qed

text \<open>
  What the assertion does check: in a run that returns, the first row of every collected
  tensor passed; and a processed batch whose first row does not pass ends the run with the
  assertion error of the budget, unless an earlier batch has ended it.
\<close>

lemma first_row_budget_check:
  assumes "load_block ext (load_checkpoint ar) = (out1, Inr model)"
  shows "(cli_main ext dm ar = (outs, None) \<longrightarrow>
            (\<forall>t \<in> set (concat (map (batch_masks model)
                                (processed (num_batches ar) (data_loader dm ar)))).
               first_row_close ext model t))
         \<and> (i < length (processed (num_batches ar) (data_loader dm ar))
              \<and> batch_extra model (processed (num_batches ar) (data_loader dm ar) ! i) ''prob_masks''
                  = Some [row0 # rest]
              \<and> budget model = Some bud \<and> \<not> isclose (tensor_sum ext row0) bud \<longrightarrow>
            cli_main ext dm ar =
              (out1, Some (case bodies ext model
                                  (take i (processed (num_batches ar) (data_loader dm ar))) acc0 of
                             Inl e' \<Rightarrow> e'
                           | Inr a \<Rightarrow> AssertionError (BudgetMismatch bud (tensor_sum ext row0)))))"
proof (intro conjI impI)
  assume c: "cli_main ext dm ar = (outs, None)"
  from assms c obtain a out2 where
    b: "bodies ext model (processed (num_batches ar) (data_loader dm ar)) acc0 = Inr a"
    by (rule cli_main_report)
  show "\<forall>t \<in> set (concat (map (batch_masks model)
                                (processed (num_batches ar) (data_loader dm ar)))).
               first_row_close ext model t"
    using bodies_masks_checked [OF b] by blast
next
  assume h: "i < length (processed (num_batches ar) (data_loader dm ar))
              \<and> batch_extra model (processed (num_batches ar) (data_loader dm ar) ! i) ''prob_masks''
                  = Some [row0 # rest]
              \<and> budget model = Some bud \<and> \<not> isclose (tensor_sum ext row0) bud"
  then have "loop_body ext model (processed (num_batches ar) (data_loader dm ar) ! i) a =
               Inl (AssertionError (BudgetMismatch bud (tensor_sum ext row0)))" for a
    by (intro loop_body_budget) simp_all
  with assms h show "cli_main ext dm ar =
              (out1, Some (case bodies ext model
                                  (take i (processed (num_batches ar) (data_loader dm ar))) acc0 of
                             Inl e' \<Rightarrow> e'
                           | Inr a \<Rightarrow> AssertionError (BudgetMismatch bud (tensor_sum ext row0))))"
    by (intro cli_main_fail_at) simp_all
qed

text \<open>The run on the batch of two images whose second mask row sums to 4, with budget 2.\<close>

lemma pair_eval:
  "evaluation (ex_ext pol2_module) pol2_module None [pair_batch] =
     ([PrintComputed 2 4],
      Inr [''ssim'' \<mapsto> Num 1, ''psnr'' \<mapsto> Num 1, ''nmse'' \<mapsto> Num 0,
           ''cond_ent_ind'' \<mapsto> Num 0,
           ''marg_ent_ind'' \<mapsto> Num (2 * ln 2),
           ''mi_ind'' \<mapsto> Num (2 * ln 2)])"
proof -
  have l: "eval_loop (ex_ext pol2_module) pol2_module None 0 [pair_batch] acc0 =
             Inr \<lparr>all_prob_masks = [[[1, 1, 0, 0], [1, 1, 1, 1]]],
                  all_ssims = [[1, 1]], all_psnrs = [1, 1], all_nmses = [0, 0]\<rparr>"
    by (simp add: loop_body_def acc0_def ex_ext_def pol2_module_def mask_module_def
        pair_batch_def isclose_def)
  have c: "torch_cat [[[1, 1, 0, 0], [1, 1, 1, 1]]] = Inr [[1, 1, 0, 0], [1, 1, 1, 1]]"
    by (simp add: torch_cat_def ncols_def)
  have n: "ncols [[1, 1, 0, 0], [1, 1, 1, 1]] = 4"
    by (simp add: ncols_def)
  have m: "map (marginal_probability [[1, 1, 0, 0], [1, 1, 1, 1]]) [0 ..< 4] = [1, 1, 1 / 2, 1 / 2]"
    by (simp add: marginal_probability_def upt_rec)
  have "marg_ent [[1, 1, 0, 0], [1, 1, 1, 1]] =
          fl_sum (map entropy_elem (map (marginal_probability [[1, 1, 0, 0], [1, 1, 1, 1]]) [0 ..< 4]))"
    by (simp add: marg_ent_def n comp_def)
  then have me: "marg_ent [[1, 1, 0, 0], [1, 1, 1, 1]] = Num (2 * ln 2)"
    unfolding m by (simp add: entropy_elem_cases ln_div)
  have ce: "cond_ent [[1, 1, 0, 0], [1, 1, 1, 1]] = Num 0"
    by (simp add: cond_ent_def entropy_elem_cases fl_mean_def)
  have s: "mask_statistics [[1, 1, 0, 0], [1, 1, 1, 1]] =
             Inr (Num 0, Num (2 * ln 2), Num (2 * ln 2))"
    unfolding mask_statistics_eq me ce by simp
  show ?thesis
    unfolding evaluation_def l
    by (simp add: finalize_def np_concatenate_def torch_cat_flat_def mean_def c s n)
qed

lemma pair_main:
  "cli_main (ex_ext pol2_module) pair_dm ex_args =
     (fst (load_block (ex_ext pol2_module) (load_checkpoint ex_args)) @ [PrintComputed 2 4] @
        [PrintReport [''ssim'' \<mapsto> Num 1, ''psnr'' \<mapsto> Num 1, ''nmse'' \<mapsto> Num 0,
           ''cond_ent_ind'' \<mapsto> Num 0,
           ''marg_ent_ind'' \<mapsto> Num (2 * ln 2),
           ''mi_ind'' \<mapsto> Num (2 * ln 2)]],
      None)"
proof (rule run_of_eval)
  show "snd (load_block (ex_ext pol2_module) (load_checkpoint ex_args)) = Inr pol2_module"
    by (rule ex_load)
  have "num_batches ex_args = None" "data_loader pair_dm ex_args = [pair_batch]"
    by (simp_all add: ex_args_def data_loader_def pair_dm_def)
  then show "evaluation (ex_ext pol2_module) pol2_module (num_batches ex_args)
        (data_loader pair_dm ex_args) =
     ([PrintComputed 2 4],
      Inr [''ssim'' \<mapsto> Num 1, ''psnr'' \<mapsto> Num 1, ''nmse'' \<mapsto> Num 0,
           ''cond_ent_ind'' \<mapsto> Num 0,
           ''marg_ent_ind'' \<mapsto> Num (2 * ln 2),
           ''mi_ind'' \<mapsto> Num (2 * ln 2)])"
    by (simp only: pair_eval)
qed

text \<open>
  Claim C2. The claim is that the sum of every row of every collected mask tensor is checked
  against the budget, and that a row that deviates is fatal. The code checks the first row
  of each tensor only. At a batch of two images whose mask tensor has the rows
  \<open>[1, 1, 0, 0]\<close> and \<open>[1, 1, 1, 1]\<close>, with budget 2, the second row sums to 4, which is not
  close to 2; the assertion passes on the first row, both rows are stacked (the source's
  comment there reads "Each row sums to model.budget"), the statistics are computed of the
  two rows, and the run returns with its report.
\<close>

theorem budget_check_first_row_only:
  "processed (num_batches ex_args) (data_loader pair_dm ex_args) = [pair_batch]
   \<and> length (batch_images pol2_module pair_batch) = 2
   \<and> batch_extra pol2_module pair_batch ''prob_masks'' = Some [[[1, 1, 0, 0], [1, 1, 1, 1]]]
   \<and> budget pol2_module = Some 2
   \<and> tensor_sum (ex_ext pol2_module) [1, 1, 0, 0] = 2
   \<and> tensor_sum (ex_ext pol2_module) [1, 1, 1, 1] = 4
   \<and> \<not> isclose 4 2
   \<and> snd (cli_main (ex_ext pol2_module) pair_dm ex_args) = None
   \<and> last (butlast (fst (cli_main (ex_ext pol2_module) pair_dm ex_args))) = PrintComputed 2 4
   \<and> dom (reported (fst (cli_main (ex_ext pol2_module) pair_dm ex_args))) =
       {''ssim'', ''psnr'', ''nmse'', ''cond_ent_ind'', ''marg_ent_ind'', ''mi_ind''}"
proof -
  have p: "processed (num_batches ex_args) (data_loader pair_dm ex_args) = [pair_batch]"
    by (simp add: processed_def data_loader_def ex_args_def pair_dm_def)
  have i: "length (batch_images pol2_module pair_batch) = 2"
    by (simp add: batch_images_def batch_output_def pol2_module_def mask_module_def
        pair_batch_def)
  have m: "batch_extra pol2_module pair_batch ''prob_masks'' =
             Some [[[1, 1, 0, 0], [1, 1, 1, 1]]]"
    by (simp add: batch_extra_def pol2_module_def mask_module_def pair_batch_def)
  have b: "budget pol2_module = Some 2"
    by (simp add: pol2_module_def mask_module_def)
  have t: "tensor_sum (ex_ext pol2_module) [1, 1, 0, 0] = 2"
    "tensor_sum (ex_ext pol2_module) [1, 1, 1, 1] = 4"
    by (simp_all add: ex_ext_def)
  have c: "\<not> isclose 4 2"
    by (simp add: isclose_def)
  have r: "snd (cli_main (ex_ext pol2_module) pair_dm ex_args) = None"
    by (simp add: pair_main)
  have o: "last (butlast (fst (cli_main (ex_ext pol2_module) pair_dm ex_args))) =
             PrintComputed 2 4"
    by (simp add: pair_main butlast_append)
  have "fst (cli_main (ex_ext pol2_module) pair_dm ex_args) =
          (fst (load_block (ex_ext pol2_module) (load_checkpoint ex_args)) @ [PrintComputed 2 4]) @
          [PrintReport [''ssim'' \<mapsto> Num 1, ''psnr'' \<mapsto> Num 1, ''nmse'' \<mapsto> Num 0,
             ''cond_ent_ind'' \<mapsto> Num 0,
             ''marg_ent_ind'' \<mapsto> Num (2 * ln 2),
             ''mi_ind'' \<mapsto> Num (2 * ln 2)]]"
    by (simp add: pair_main)
  then have d: "dom (reported (fst (cli_main (ex_ext pol2_module) pair_dm ex_args))) =
       {''ssim'', ''psnr'', ''nmse'', ''cond_ent_ind'', ''marg_ent_ind'', ''mi_ind''}"
    by (simp only: reported_last) auto
  from p i m b t c r o d show ?thesis by blast
qed

text \<open>
  Claim C7. A processed batch whose auxiliary outputs have more than one tensor under
  \<^verbatim>\<open>prob_masks\<close> fails the assertion on the number of policies: the body raises it before any
  mask of the batch is read, and the run ends with it (or with the exception of an earlier
  batch), having printed nothing after the loading.
\<close>

theorem multiple_policies_fatal:
  assumes "load_block ext (load_checkpoint ar) = (out1, Inr model)"
      and "i < length (processed (num_batches ar) (data_loader dm ar))"
      and "batch_extra model (processed (num_batches ar) (data_loader dm ar) ! i) ''prob_masks''
             = Some ms"
      and "1 < length ms"
  shows "loop_body ext model (processed (num_batches ar) (data_loader dm ar) ! i) a =
           Inl (AssertionError MultiplePolicies)
         \<and> cli_main ext dm ar =
             (out1, Some (case bodies ext model
                                 (take i (processed (num_batches ar) (data_loader dm ar))) acc0 of
                            Inl e' \<Rightarrow> e'
                          | Inr a' \<Rightarrow> AssertionError MultiplePolicies))"
proof -
  from assms(4) have n: "length ms \<noteq> 1" by simp
  have b: "loop_body ext model (processed (num_batches ar) (data_loader dm ar) ! i) a' =
             Inl (AssertionError MultiplePolicies)" for a'
    using assms(3) n by (rule loop_body_policies)
  from cli_main_fail_at [OF assms(1,2) b] b [of a] show ?thesis
    by simp
qed

theorem multiple_policies_fatal_witness:
  "snd (load_block (ex_ext two_pol_module) (load_checkpoint ex_args)) = Inr two_pol_module
   \<and> batch_extra two_pol_module
        (processed (num_batches ex_args) (data_loader pol2_dm ex_args) ! 0) ''prob_masks''
       = Some [[[1, 1, 0, 0]], [[1, 1, 1, 1]]]
   \<and> cli_main (ex_ext two_pol_module) pol2_dm ex_args =
       (fst (load_block (ex_ext two_pol_module) (load_checkpoint ex_args)),
        Some (AssertionError MultiplePolicies))"
proof -
  note l = ex_load_pair [of two_pol_module "load_checkpoint ex_args"]
  have i: "0 < length (processed (num_batches ex_args) (data_loader pol2_dm ex_args))"
    unfolding pol2_processed by simp
  have e: "batch_extra two_pol_module
        (processed (num_batches ex_args) (data_loader pol2_dm ex_args) ! 0) ''prob_masks''
       = Some [[[1, 1, 0, 0]], [[1, 1, 1, 1]]]"
    unfolding pol2_processed
    by (simp add: batch_extra_def two_pol_module_def mask_module_def mask_batch_def)
  have n: "1 < length [[[1, 1, 0, 0]], [[1, 1, 1, 1 :: real]]]"
    by simp
  from multiple_policies_fatal [OF l i e n]
  have "cli_main (ex_ext two_pol_module) pol2_dm ex_args =
       (fst (load_block (ex_ext two_pol_module) (load_checkpoint ex_args)),
        Some (AssertionError MultiplePolicies))"
    by simp
  with ex_load [of two_pol_module "load_checkpoint ex_args"] e show ?thesis
    by simp
qed

section \<open>Statistics of the probability masks\<close>

text \<open>On probabilities from 0 to 1 the entries of \<^verbatim>\<open>entropy\<close> are numbers, and so are their sums and means.\<close>

lemma entropy_elem_unit:
  assumes "0 \<le> p" and "p \<le> 1"
  shows "entropy_elem p = Num (binary_entropy p)"
  using assms by (auto simp: entropy_elem_cases binary_entropy_def)

lemma fl_sum_Num: "fl_sum (map (\<lambda>x. Num (f x)) xs) = Num (\<Sum>x\<leftarrow>xs. f x)"
  by (induction xs) simp_all

lemma fl_sum_entropy_row:
  assumes "\<forall>p \<in> set row. 0 \<le> p \<and> p \<le> 1"
  shows "fl_sum (map entropy_elem row) = Num (\<Sum>p\<leftarrow>row. binary_entropy p)"
proof -
  have eq: "map entropy_elem row = map (\<lambda>p. Num (binary_entropy p)) row"
    using assms by (intro map_cong) (simp_all add: entropy_elem_unit)
  show ?thesis unfolding eq by (rule fl_sum_Num)
qed

lemma cond_ent_real:
  assumes "rows \<noteq> []" and "\<forall>row \<in> set rows. \<forall>p \<in> set row. 0 \<le> p \<and> p \<le> 1"
  shows "cond_ent rows =
           Num ((\<Sum>row\<leftarrow>rows. \<Sum>p\<leftarrow>row. binary_entropy p) / real (length rows))"
proof -
  have eq: "map (\<lambda>row. fl_sum (map entropy_elem row)) rows =
          map (\<lambda>row. Num (\<Sum>p\<leftarrow>row. binary_entropy p)) rows"
    using assms(2) by (intro map_cong) (simp_all add: fl_sum_entropy_row)
  show ?thesis
    unfolding cond_ent_def eq using assms(1) by (simp add: fl_mean_def fl_sum_Num)
qed

lemma sum_list_unit_bounds:
  fixes f :: "'a \<Rightarrow> real"
  assumes "\<forall>x \<in> set xs. 0 \<le> f x \<and> f x \<le> 1"
  shows "0 \<le> (\<Sum>x\<leftarrow>xs. f x) \<and> (\<Sum>x\<leftarrow>xs. f x) \<le> real (length xs)"
  using assms by (induction xs) auto

lemma marginal_unit:
  assumes "rows \<noteq> []"
      and "\<forall>row \<in> set rows. length row = L \<and> (\<forall>p \<in> set row. 0 \<le> p \<and> p \<le> 1)"
      and "l < L"
  shows "0 \<le> marginal_probability rows l \<and> marginal_probability rows l \<le> 1"
proof -
  have "\<forall>row \<in> set rows. 0 \<le> row ! l \<and> row ! l \<le> 1"
    using assms(2,3) by (metis nth_mem)
  from sum_list_unit_bounds [OF this]
  have "0 \<le> (\<Sum>row\<leftarrow>rows. row ! l)" and "(\<Sum>row\<leftarrow>rows. row ! l) \<le> real (length rows)"
    by simp_all
  moreover from assms(1) have "0 < real (length rows)" by simp
  ultimately show ?thesis
    by (simp add: marginal_probability_def)
qed

lemma marg_ent_real:
  assumes "rows \<noteq> []"
      and "\<forall>row \<in> set rows. length row = ncols rows \<and> (\<forall>p \<in> set row. 0 \<le> p \<and> p \<le> 1)"
  shows "marg_ent rows =
           Num (\<Sum>l\<leftarrow>[0 ..< ncols rows]. binary_entropy (marginal_probability rows l))"
proof -
  have eq: "map (\<lambda>l. entropy_elem (marginal_probability rows l)) [0 ..< ncols rows] =
          map (\<lambda>l. Num (binary_entropy (marginal_probability rows l))) [0 ..< ncols rows]"
  proof (intro map_cong refl)
    fix l assume "l \<in> set [0 ..< ncols rows]"
    then have "l < ncols rows" by simp
    from marginal_unit [OF assms this]
    show "entropy_elem (marginal_probability rows l) =
            Num (binary_entropy (marginal_probability rows l))"
      by (simp add: entropy_elem_unit)
  qed
  show ?thesis unfolding marg_ent_def eq by (rule fl_sum_Num)
qed

text \<open>
  Claim C3. For the stack of the N collected mask rows of length L, with entries from 0 to
  1, the marginal probability of line \<open>l\<close> that \<^verbatim>\<open>cli_main\<close> computes is the sum over the rows
  of entry \<open>l\<close>, divided by N; \<^verbatim>\<open>marg_ent_ind\<close> is the sum over the lines of \<open>H\<close> of the marginal
  probability; \<^verbatim>\<open>cond_ent_ind\<close> is the sum over the rows of the sum over the lines of \<open>H\<close> of
  the entry, divided by N; and \<^verbatim>\<open>mi_ind\<close> is the first less the second. For the masks
  \<open>[1,1,0,0]\<close>, \<open>[1,0,1,0]\<close>, \<open>[0,1,1,0]\<close> the marginal probabilities are \<open>[2/3, 2/3, 2/3, 0]\<close>,
  the marginal entropy is \<open>3 H(2/3)\<close>, the conditional entropy is 0 and the mutual
  information is \<open>3 H(2/3)\<close>.
\<close>

theorem mask_statistics_reported:
  assumes "load_block ext (load_checkpoint ar) = (out1, Inr model)"
      and "cli_main ext dm ar = (outs, None)"
      and "concat (map (batch_masks model) (processed (num_batches ar) (data_loader dm ar))) \<noteq> []"
      and "\<forall>row \<in> set (concat (concat (map (batch_masks model)
                   (processed (num_batches ar) (data_loader dm ar))))).
             length row = ncols (concat (concat (map (batch_masks model)
                   (processed (num_batches ar) (data_loader dm ar)))))
             \<and> (\<forall>p \<in> set row. 0 \<le> p \<and> p \<le> 1)"
  shows "(let rows = concat (concat (map (batch_masks model)
                        (processed (num_batches ar) (data_loader dm ar))));
              N = real (length rows);
              marginal = (\<lambda>l. (\<Sum>row\<leftarrow>rows. row ! l) / N);
              marg = (\<Sum>l\<leftarrow>[0 ..< ncols rows]. binary_entropy (marginal l));
              cond = (\<Sum>row\<leftarrow>rows. \<Sum>p\<leftarrow>row. binary_entropy p) / N
          in rows \<noteq> []
             \<and> mean_dim0 rows = [map marginal [0 ..< ncols rows]]
             \<and> reported outs ''marg_ent_ind'' = Some (Num marg)
             \<and> reported outs ''cond_ent_ind'' = Some (Num cond)
             \<and> reported outs ''mi_ind'' = Some (Num (marg - cond)))
         \<and> mean_dim0 rows3 = [[2 / 3, 2 / 3, 2 / 3, 0]]
         \<and> mask_statistics rows3 =
             Inr (Num 0, Num (3 * binary_entropy (2 / 3)), Num (3 * binary_entropy (2 / 3)))"
proof -
  define masks where
    "masks = concat (map (batch_masks model) (processed (num_batches ar) (data_loader dm ar)))"
  define rows where "rows = concat masks"
  from assms(1,2) obtain a out2 where
    b: "bodies ext model (processed (num_batches ar) (data_loader dm ar)) acc0 = Inr a"
    and f: "finalize a = (out2, Inr (reported outs))"
    by (rule cli_main_report)
  have m: "all_prob_masks a = masks"
    using bodies_acc(4) [OF b] by (simp add: acc0_def masks_def)
  from assms(3) have mne: "masks \<noteq> []" by (simp add: masks_def)
  with m have ne: "all_prob_masks a \<noteq> []" by simp
  from mne obtain t ts where ts: "masks = t # ts" by (cases masks) simp_all
  then have "t \<in> set masks" by simp
  then have "first_row_close ext model t"
    using bodies_masks_checked [OF b] by (simp add: masks_def)
  then have "t \<noteq> []" by (auto simp: first_row_close_def)
  with ts have rne: "rows \<noteq> []" by (simp add: rows_def)
  from assms(4) have wf:
    "\<forall>row \<in> set rows. length row = ncols rows \<and> (\<forall>p \<in> set row. 0 \<le> p \<and> p \<le> 1)"
    by (simp add: rows_def masks_def)
  then have wf': "\<forall>row \<in> set rows. \<forall>p \<in> set row. 0 \<le> p \<and> p \<le> 1" by blast
  have md: "mean_dim0 r = [map (marginal_probability r) [0 ..< ncols r]]" for r
    by (simp add: mean_dim0_def marginal_probability_def)
  have mp: "marginal_probability rows = (\<lambda>l. (\<Sum>row\<leftarrow>rows. row ! l) / real (length rows))"
    by (rule ext) (simp add: marginal_probability_def)
  from finalize_masks [OF f ne]
  have r1: "reported outs ''marg_ent_ind'' = Some (marg_ent rows)"
    and r2: "reported outs ''cond_ent_ind'' = Some (cond_ent rows)"
    and r3: "reported outs ''mi_ind'' = Some (fl_sub (marg_ent rows) (cond_ent rows))"
    by (simp_all add: m rows_def)
  have g: "rows \<noteq> []
       \<and> mean_dim0 rows = [map (\<lambda>l. (\<Sum>row\<leftarrow>rows. row ! l) / real (length rows)) [0 ..< ncols rows]]
       \<and> reported outs ''marg_ent_ind'' =
           Some (Num (\<Sum>l\<leftarrow>[0 ..< ncols rows].
                        binary_entropy ((\<Sum>row\<leftarrow>rows. row ! l) / real (length rows))))
       \<and> reported outs ''cond_ent_ind'' =
           Some (Num ((\<Sum>row\<leftarrow>rows. \<Sum>p\<leftarrow>row. binary_entropy p) / real (length rows)))
       \<and> reported outs ''mi_ind'' =
           Some (Num ((\<Sum>l\<leftarrow>[0 ..< ncols rows].
                         binary_entropy ((\<Sum>row\<leftarrow>rows. row ! l) / real (length rows)))
                      - (\<Sum>row\<leftarrow>rows. \<Sum>p\<leftarrow>row. binary_entropy p) / real (length rows)))"
    using rne md [of rows] r1 r2 r3
    unfolding marg_ent_real [OF rne wf] cond_ent_real [OF rne wf'] mp
    by simp
  have p1: "mean_dim0 rows3 = [[2 / 3, 2 / 3, 2 / 3, 0]]"
    unfolding md rows3_marginal ..
  have p2: "mask_statistics rows3 =
             Inr (Num 0, Num (3 * binary_entropy (2 / 3)), Num (3 * binary_entropy (2 / 3)))"
    unfolding mask_statistics_eq rows3_marg_ent rows3_cond_ent by simp
  from g p1 p2 show ?thesis
    unfolding Let_def rows_def masks_def by blast
qed

text \<open>
  The scenario as a run, three batches of one image with budget 2, each with one of the
  three masks; and a run of two batches whose masks \<open>[1/2, 1/2, 1, 0]\<close> and \<open>[1, 1, 0, 0]\<close>
  have the entropies \<open>2 ln 2\<close> and 0, so that the conditional entropy is \<open>ln 2\<close> and the
  mutual information is less than the marginal entropy.
\<close>

lemma binary_entropy_values:
  "binary_entropy 0 = 0" "binary_entropy 1 = 0" "binary_entropy (1 / 2) = ln 2"
  by (simp_all add: binary_entropy_def ln_div)

lemma half_masks:
  "concat (map (batch_masks pol_module) (processed (num_batches ex_args) (data_loader half_dm ex_args)))
     = [[[1 / 2, 1 / 2, 1, 0]], [[1, 1, 0, 0]]]"
  by (simp add: processed_def data_loader_def ex_args_def half_dm_def batch_masks_def
      batch_extra_def pol_module_def mask_module_def mask_batch_def)

lemma half_returns: "snd (cli_main (ex_ext pol_module) half_dm ex_args) = None"
proof -
  have l: "eval_loop (ex_ext pol_module) pol_module None 0 (val_dataloader half_dm) acc0 =
             Inr \<lparr>all_prob_masks = [[[1 / 2, 1 / 2, 1, 0]], [[1, 1, 0, 0]]],
                  all_ssims = [[1], [1]], all_psnrs = [1, 1], all_nmses = [0, 0]\<rparr>"
    by (simp add: loop_body_def acc0_def ex_ext_def pol_module_def mask_module_def
        half_dm_def mask_batch_def isclose_def)
  have d: "data_loader half_dm ex_args = val_dataloader half_dm"
    by (simp add: data_loader_def ex_args_def)
  have "\<exists>out2 rd. evaluation (ex_ext pol_module) pol_module (num_batches ex_args)
          (data_loader half_dm ex_args) = (out2, Inr rd)"
    unfolding evaluation_def d ex_args_fields l
    by (simp add: finalize_def np_concatenate_def torch_cat_flat_def torch_cat_def ncols_def
        mask_statistics_eq)
  then obtain out2 rd where "evaluation (ex_ext pol_module) pol_module (num_batches ex_args)
          (data_loader half_dm ex_args) = (out2, Inr rd)"
    by blast
  from run_of_eval [OF ex_load this] show ?thesis by simp
qed

theorem mask_statistics_reported_witness:
  "snd (load_block (ex_ext pol_module) (load_checkpoint ex_args)) = Inr pol_module
   \<and> snd (cli_main (ex_ext pol_module) pol_dm ex_args) = None
   \<and> concat (concat (map (batch_masks pol_module)
         (processed (num_batches ex_args) (data_loader pol_dm ex_args)))) = rows3
   \<and> reported (fst (cli_main (ex_ext pol_module) pol_dm ex_args)) ''marg_ent_ind'' =
       Some (Num (3 * binary_entropy (2 / 3)))
   \<and> reported (fst (cli_main (ex_ext pol_module) pol_dm ex_args)) ''cond_ent_ind'' = Some (Num 0)
   \<and> reported (fst (cli_main (ex_ext pol_module) pol_dm ex_args)) ''mi_ind'' =
       Some (Num (3 * binary_entropy (2 / 3)))
   \<and> snd (cli_main (ex_ext pol_module) half_dm ex_args) = None
   \<and> concat (concat (map (batch_masks pol_module)
         (processed (num_batches ex_args) (data_loader half_dm ex_args))))
       = [[1 / 2, 1 / 2, 1, 0], [1, 1, 0, 0]]
   \<and> reported (fst (cli_main (ex_ext pol_module) half_dm ex_args)) ''marg_ent_ind'' =
       Some (Num (2 * binary_entropy (3 / 4) + ln 2))
   \<and> reported (fst (cli_main (ex_ext pol_module) half_dm ex_args)) ''cond_ent_ind'' =
       Some (Num (ln 2))
   \<and> reported (fst (cli_main (ex_ext pol_module) half_dm ex_args)) ''mi_ind'' =
       Some (Num (2 * binary_entropy (3 / 4)))"
proof -
  note l = ex_load_pair [of pol_module "load_checkpoint ex_args"]
  have c3: "cli_main (ex_ext pol_module) pol_dm ex_args =
             (fst (cli_main (ex_ext pol_module) pol_dm ex_args), None)"
    by (simp add: pol_main)
  have n3: "concat (map (batch_masks pol_module)
             (processed (num_batches ex_args) (data_loader pol_dm ex_args))) \<noteq> []"
    unfolding pol_masks by simp
  have r3: "concat (concat (map (batch_masks pol_module)
         (processed (num_batches ex_args) (data_loader pol_dm ex_args)))) = rows3"
    unfolding pol_masks by (simp add: rows3_def)
  have w3: "\<forall>row \<in> set (concat (concat (map (batch_masks pol_module)
                   (processed (num_batches ex_args) (data_loader pol_dm ex_args))))).
             length row = ncols (concat (concat (map (batch_masks pol_module)
                   (processed (num_batches ex_args) (data_loader pol_dm ex_args)))))
             \<and> (\<forall>p \<in> set row. 0 \<le> p \<and> p \<le> 1)"
    unfolding pol_masks by (simp add: ncols_def)
  have v3: "reported (fst (cli_main (ex_ext pol_module) pol_dm ex_args)) ''marg_ent_ind'' =
       Some (Num (3 * binary_entropy (2 / 3)))
   \<and> reported (fst (cli_main (ex_ext pol_module) pol_dm ex_args)) ''cond_ent_ind'' = Some (Num 0)
   \<and> reported (fst (cli_main (ex_ext pol_module) pol_dm ex_args)) ''mi_ind'' =
       Some (Num (3 * binary_entropy (2 / 3)))"
    using mask_statistics_reported [OF l c3 n3 w3]
    unfolding pol_masks Let_def
    by (simp add: ncols_def upt_rec binary_entropy_values)
  have ch: "cli_main (ex_ext pol_module) half_dm ex_args =
             (fst (cli_main (ex_ext pol_module) half_dm ex_args), None)"
    using half_returns by (simp add: prod_eq_iff)
  have nh: "concat (map (batch_masks pol_module)
             (processed (num_batches ex_args) (data_loader half_dm ex_args))) \<noteq> []"
    unfolding half_masks by simp
  have rh: "concat (concat (map (batch_masks pol_module)
         (processed (num_batches ex_args) (data_loader half_dm ex_args))))
       = [[1 / 2, 1 / 2, 1, 0], [1, 1, 0, 0]]"
    unfolding half_masks by simp
  have wh: "\<forall>row \<in> set (concat (concat (map (batch_masks pol_module)
                   (processed (num_batches ex_args) (data_loader half_dm ex_args))))).
             length row = ncols (concat (concat (map (batch_masks pol_module)
                   (processed (num_batches ex_args) (data_loader half_dm ex_args)))))
             \<and> (\<forall>p \<in> set row. 0 \<le> p \<and> p \<le> 1)"
    unfolding half_masks by (simp add: ncols_def)
  have vh: "reported (fst (cli_main (ex_ext pol_module) half_dm ex_args)) ''marg_ent_ind'' =
       Some (Num (2 * binary_entropy (3 / 4) + ln 2))
   \<and> reported (fst (cli_main (ex_ext pol_module) half_dm ex_args)) ''cond_ent_ind'' =
       Some (Num (ln 2))
   \<and> reported (fst (cli_main (ex_ext pol_module) half_dm ex_args)) ''mi_ind'' =
       Some (Num (2 * binary_entropy (3 / 4)))"
    using mask_statistics_reported [OF l ch nh wh]
    unfolding half_masks Let_def
    by (simp add: ncols_def upt_rec binary_entropy_values)
  have s3: "snd (cli_main (ex_ext pol_module) pol_dm ex_args) = None"
    by (simp add: pol_main)
  from ex_load [of pol_module "load_checkpoint ex_args"] s3 r3 v3 half_returns rh vh
  show ?thesis by blast
qed

section \<open>Loading the checkpoint\<close>

lemma weight_mismatch_RuntimeError:
  assumes "weight_mismatch ext module_class fname"
  shows "snd (load_model ext module_class fname) = Inl RuntimeError"
proof -
  from assms obtain ck where c: "torch_load ext fname = Inr ck"
    unfolding weight_mismatch_def by (cases "torch_load ext fname") simp_all
  from assms c obtain hp where h: "hyper_parameters ck = Some hp"
    unfolding weight_mismatch_def by (cases "hyper_parameters ck") simp_all
  from assms c h obtain mdl where m: "init_module ext module_class hp = Inr mdl"
    unfolding weight_mismatch_def by (cases "init_module ext module_class hp") simp_all
  from assms c h m obtain sd where s: "state_dict ck = Some sd"
    unfolding weight_mismatch_def by (cases "state_dict ck") simp_all
  from assms c h m s have "load_state_dict ext mdl sd = Inl RuntimeError"
    unfolding weight_mismatch_def by (cases "load_state_dict ext mdl sd") simp_all
  with c h m s show ?thesis by (simp add: load_model_def)
qed

text \<open>
  Claim C8, as amended. The policy-enabled class is tried first. If and only if that attempt
  raises a RuntimeError, which a weight mismatch does, the policy-free class is tried, once:
  the result of the block is the result of that second attempt, an exception included, and
  \<^verbatim>\<open>load_model\<close> has been called twice. Otherwise the result is that of the first attempt,
  and \<^verbatim>\<open>load_model\<close> has been called once.
\<close>

theorem load_block_fallback:
  "(let r1 = snd (load_model ext AdaptiveVarNetModule fname);
        r2 = snd (load_model ext VarNetModule fname);
        outs = fst (load_block ext fname);
        r = snd (load_block ext fname)
    in take 2 outs =
         [Print ''Trying to load as AdaptiveVarNetModule...'',
          Print (''loading model from '' @ fname)]
       \<and> (weight_mismatch ext AdaptiveVarNetModule fname \<longrightarrow> r1 = Inl RuntimeError)
       \<and> (r1 = Inl RuntimeError \<longrightarrow> r = r2 \<and> attempts outs fname = 2)
       \<and> (r1 \<noteq> Inl RuntimeError \<longrightarrow> r = r1 \<and> attempts outs fname = 1))"
proof -
  obtain r1 where a: "load_model ext AdaptiveVarNetModule fname =
      ([Print (''loading model from '' @ fname)], r1)"
    by (simp add: load_model_def)
  obtain r2 where v: "load_model ext VarNetModule fname =
      ([Print (''loading model from '' @ fname)], r2)"
    by (simp add: load_model_def)
  have t: "take 2 (fst (load_block ext fname)) =
         [Print ''Trying to load as AdaptiveVarNetModule...'',
          Print (''loading model from '' @ fname)]"
    by (cases r1; cases r2) (simp_all add: load_block_def a v Let_def)
  have f: "r1 = Inl RuntimeError \<Longrightarrow>
             snd (load_block ext fname) = r2 \<and> attempts (fst (load_block ext fname)) fname = 2"
    by (cases r2) (simp_all add: load_block_def a v attempts_def Let_def)
  have n: "r1 \<noteq> Inl RuntimeError \<Longrightarrow>
             snd (load_block ext fname) = r1 \<and> attempts (fst (load_block ext fname)) fname = 1"
    by (cases r1) (simp_all add: load_block_def a v attempts_def Let_def)
  show ?thesis
    unfolding Let_def using t f n weight_mismatch_RuntimeError [of ext AdaptiveVarNetModule fname]
    by (simp add: a v)
qed

theorem load_block_fallback_witness:
  "weight_mismatch mismatch_ext AdaptiveVarNetModule ''ckpt''
   \<and> snd (load_model mismatch_ext AdaptiveVarNetModule ''ckpt'') = Inl RuntimeError
   \<and> snd (load_model mismatch_ext VarNetModule ''ckpt'') = Inr ex_module
   \<and> snd (load_block mismatch_ext ''ckpt'') = Inr ex_module
   \<and> attempts (fst (load_block mismatch_ext ''ckpt'')) ''ckpt'' = 2
   \<and> snd (load_block (ex_ext ex_module) ''ckpt'') = Inr ex_module
   \<and> attempts (fst (load_block (ex_ext ex_module) ''ckpt'')) ''ckpt'' = 1"
proof -
  have b: "budget pol_module = Some 2" "budget ex_module = None"
    by (simp_all add: pol_module_def mask_module_def ex_module_def)
  have w: "weight_mismatch mismatch_ext AdaptiveVarNetModule ''ckpt''"
    by (simp add: weight_mismatch_def mismatch_ext_def ex_ext_def b)
  have v: "snd (load_model mismatch_ext VarNetModule ''ckpt'') = Inr ex_module"
    by (simp add: load_model_def mismatch_ext_def ex_ext_def b)
  have a: "snd (load_model (ex_ext ex_module) AdaptiveVarNetModule ''ckpt'') \<noteq> Inl RuntimeError"
    "snd (load_model (ex_ext ex_module) AdaptiveVarNetModule ''ckpt'') = Inr ex_module"
    by (simp_all add: load_model_def ex_ext_def)
  from load_block_fallback [of mismatch_ext "''ckpt''"] w v
  have 1: "snd (load_model mismatch_ext AdaptiveVarNetModule ''ckpt'') = Inl RuntimeError
       \<and> snd (load_block mismatch_ext ''ckpt'') = Inr ex_module
       \<and> attempts (fst (load_block mismatch_ext ''ckpt'')) ''ckpt'' = 2"
    unfolding Let_def by simp
  from load_block_fallback [of "ex_ext ex_module" "''ckpt''"] a
  have 2: "snd (load_block (ex_ext ex_module) ''ckpt'') = Inr ex_module
       \<and> attempts (fst (load_block (ex_ext ex_module) ''ckpt'')) ''ckpt'' = 1"
    unfolding Let_def by simp
  from w v 1 2 show ?thesis by blast
qed

text \<open>
  Claim C8, as stated, fails in its "only if": when reading the checkpoint raises a
  RuntimeError, no weights are ever compared, and the policy-free class is tried all the same.
\<close>

theorem fallback_without_mismatch_counterexample:
  "\<not> weight_mismatch corrupt_ext AdaptiveVarNetModule ''ckpt''
   \<and> load_block corrupt_ext ''ckpt'' =
       ([Print ''Trying to load as AdaptiveVarNetModule...'',
         Print ''loading model from ckpt'',
         Print ''Loading as AdaptiveVarNetModule failed, trying to load as VarNetModule...'',
         Print ''loading model from ckpt''],
        Inl RuntimeError)
   \<and> attempts (fst (load_block corrupt_ext ''ckpt'')) ''ckpt'' = 2"
  by (simp add: weight_mismatch_def load_block_def load_model_def corrupt_ext_def ex_ext_def
      attempts_def)

end
